theory Spec2Isabelle
  imports Main "HOL-Library.Word"
begin

unbundle bit_operations_syntax

section \<open>Machine types and the external file\<close>

text \<open>
  \<^verbatim>\<open>uint64_t\<close> is a 64-bit word; \<^verbatim>\<open>size_t\<close> is taken to be 64 bits wide as well
  (the LP64 targets the code is built for), so that \<^verbatim>\<open>static_cast<size_t>\<close> of a
  \<^verbatim>\<open>uint64_t\<close> is the identity. Addition, subtraction and multiplication wrap around.
  A \<^verbatim>\<open>char\<close> buffer is a list of bytes.
\<close>

type_synonym u64 = "64 word"
type_synonym byte = "8 word"

text \<open>
  \<^verbatim>\<open>IOStatus\<close>: \<open>OK\<close>, or a failure carrying the message of the status. The wrapper
  only ever tests \<^verbatim>\<open>s.ok()\<close> and hands the status on, so one failure constructor
  stands for every status that is not OK.
\<close>

datatype IOStatus = OK | IOError string

text \<open>
  The wrapped \<^verbatim>\<open>FSRandomAccessFile\<close> is an external collaborator. Of its interface
  the wrapper uses \<^verbatim>\<open>Read(offset, n, ..., &result, scratch, ...)\<close>,
  \<^verbatim>\<open>GetRequiredBufferAlignment()\<close> and \<^verbatim>\<open>InvalidateCache(offset, length)\<close>.
  \<open>fs_read offset n\<close> is the answer of one \<^verbatim>\<open>Read\<close> call: the status, and the bytes
  the call left at the start of \<^verbatim>\<open>scratch\<close> (for an OK status these are the bytes of
  the result slice; a failing call may have written some bytes before it failed).
\<close>

record FSRandomAccessFile =
  fs_read :: "u64 \<Rightarrow> u64 \<Rightarrow> IOStatus \<times> byte list"
  fs_alignment :: u64
  fs_invalidate :: "u64 \<Rightarrow> u64 \<Rightarrow> IOStatus"

text \<open>
  One call \<^verbatim>\<open>file_->Read(offset, n, ...)\<close>. The interface reads at most \<open>n\<close> bytes
  into a scratch area of \<open>n\<close> bytes, so the answer is cut to \<open>n\<close> bytes.
\<close>

definition file_Read :: "FSRandomAccessFile \<Rightarrow> u64 \<Rightarrow> u64 \<Rightarrow> IOStatus \<times> byte list" where
  "file_Read f offset n = (case fs_read f offset n of (s, bytes) \<Rightarrow> (s, take (unat n) bytes))"

section \<open>Alignment helpers and the aligned buffer\<close>

text \<open>
  \<^verbatim>\<open>readahead_raf.cc\<close> includes \<^verbatim>\<open>util/aligned_buffer.h\<close> for
  \<^verbatim>\<open>TruncateToPageBoundary\<close>, \<^verbatim>\<open>Roundup\<close> and the class \<^verbatim>\<open>AlignedBuffer\<close>; the
  header is not among the sources. The spec asks for ranges rounded to the file system's
  required alignment and describes the aligned block.
\<close>

text \<open>
  Modelled from the spec: \<^verbatim>\<open>TruncateToPageBoundary\<close> is missing. It rounds an offset
  down to the alignment by clearing the bits below the page size.
\<close>

definition TruncateToPageBoundary :: "u64 \<Rightarrow> u64 \<Rightarrow> u64" where
  "TruncateToPageBoundary page_size s = s - (s AND (page_size - 1))"

text \<open>
  Modelled from the spec: \<^verbatim>\<open>Roundup\<close> is missing. It rounds a length up to the next
  multiple of the alignment.
\<close>

definition Roundup :: "u64 \<Rightarrow> u64 \<Rightarrow> u64" where
  "Roundup x y = ((x + y - 1) div y) * y"

text \<open>
  Modelled from the spec: the class \<^verbatim>\<open>AlignedBuffer\<close> is missing. It is the aligned
  block of the spec's data model, an alignment-padded byte buffer whose
  \<^verbatim>\<open>CurrentSize()\<close> is the number of bytes populated. \<open>bufstart\<close> is the memory at
  \<^verbatim>\<open>BufferStart()\<close>, \<open>capacity\<close> its size and \<open>cursize\<close> the populated prefix.
  The member functions the wrapper calls follow: the three getters, \<^verbatim>\<open>Alignment\<close>,
  \<^verbatim>\<open>AllocateNewBuffer\<close> (a fresh, empty buffer of the capacity rounded up to the
  alignment), \<^verbatim>\<open>Size\<close> (sets the populated size) and \<^verbatim>\<open>Clear\<close> (empties it).
\<close>

record AlignedBuffer =
  buf_alignment :: u64
  capacity :: u64
  cursize :: u64
  bufstart :: "byte list"

definition CurrentSize :: "AlignedBuffer \<Rightarrow> u64" where
  "CurrentSize b = cursize b"

definition Capacity :: "AlignedBuffer \<Rightarrow> u64" where
  "Capacity b = capacity b"

definition BufferStart :: "AlignedBuffer \<Rightarrow> byte list" where
  "BufferStart b = bufstart b"

definition Alignment :: "AlignedBuffer \<Rightarrow> u64 \<Rightarrow> AlignedBuffer" where
  "Alignment b a = b\<lparr>buf_alignment := a\<rparr>"

definition AllocateNewBuffer :: "AlignedBuffer \<Rightarrow> u64 \<Rightarrow> AlignedBuffer" where
  "AllocateNewBuffer b requested_capacity =
     (let new_capacity = Roundup requested_capacity (buf_alignment b)
      in b\<lparr>capacity := new_capacity, cursize := 0,
            bufstart := replicate (unat new_capacity) 0\<rparr>)"

definition Size :: "AlignedBuffer \<Rightarrow> u64 \<Rightarrow> AlignedBuffer" where
  "Size b n = b\<lparr>cursize := n\<rparr>"

definition Clear :: "AlignedBuffer \<Rightarrow> AlignedBuffer" where
  "Clear b = b\<lparr>cursize := 0\<rparr>"

text \<open>
  What a read of the external file leaves in the buffer memory: the bytes it wrote, at
  \<^verbatim>\<open>BufferStart()\<close>, over what was there.
\<close>

definition write_at_start :: "byte list \<Rightarrow> AlignedBuffer \<Rightarrow> AlignedBuffer" where
  "write_at_start bytes b = b\<lparr>bufstart := bytes @ drop (length bytes) (bufstart b)\<rparr>"

section \<open>ReadaheadRandomAccessFile (file/readahead\_raf.cc)\<close>

text \<open>
  The object: the wrapped file \<^verbatim>\<open>file_\<close> (\<open>raf_file\<close>), the two constants fixed by the constructor, the
  read-ahead buffer and the file offset of its first byte. \<open>io_calls\<close> is a ghost
  field: the \<open>(offset, n)\<close> of every \<^verbatim>\<open>file_->Read\<close> call made so far, oldest first.
  The mutex serialises every access to the buffer; each operation below is one call,
  run on its own.
\<close>

record ReadaheadRandomAccessFile =
  raf_file :: FSRandomAccessFile
  alignment :: u64
  readahead_size :: u64
  buffer :: AlignedBuffer
  buffer_offset :: u64
  io_calls :: "(u64 \<times> u64) list"

text \<open>The constructor, reached through \<^verbatim>\<open>NewReadaheadRandomAccessFile\<close>.\<close>

definition NewReadaheadRandomAccessFile :: "FSRandomAccessFile \<Rightarrow> u64 \<Rightarrow> ReadaheadRandomAccessFile" where
  "NewReadaheadRandomAccessFile f requested =
     (let a = fs_alignment f;
          rs = Roundup requested a
      in \<lparr>raf_file = f, alignment = a, readahead_size = rs,
          buffer = AllocateNewBuffer
                      (Alignment \<lparr>buf_alignment = 0, capacity = 0, cursize = 0, bufstart = []\<rparr> a) rs,
          buffer_offset = 0, io_calls = []\<rparr>)"

text \<open>
  \<^verbatim>\<open>TryReadFromCache(offset, n, &cached_len, scratch)\<close>: the hit flag, \<open>cached_len\<close>,
  and the \<open>cached_len\<close> bytes copied to \<open>scratch\<close>. It is a \<^verbatim>\<open>const\<close> method that
  touches neither the file nor the object.
\<close>

definition TryReadFromCache :: "ReadaheadRandomAccessFile \<Rightarrow> u64 \<Rightarrow> u64 \<Rightarrow> bool \<times> u64 \<times> byte list" where
  "TryReadFromCache st offset n =
     (if offset < buffer_offset st \<or> offset \<ge> buffer_offset st + CurrentSize (buffer st)
      then (False, 0, [])
      else
        (let offset_in_buffer = offset - buffer_offset st;
             cached_len = min (CurrentSize (buffer st) - offset_in_buffer) n
         in (True, cached_len,
             take (unat cached_len) (drop (unat offset_in_buffer) (BufferStart (buffer st))))))"

text \<open>
  \<^verbatim>\<open>ReadIntoBuffer(offset, n, ...)\<close>: one read of the external file into the buffer
  memory. Offset and size of the buffer change only when the read is OK. The three
  \<^verbatim>\<open>assert\<close>s are compiled out of a release build and are not modelled.
\<close>

definition ReadIntoBuffer :: "ReadaheadRandomAccessFile \<Rightarrow> u64 \<Rightarrow> u64 \<Rightarrow> IOStatus \<times> ReadaheadRandomAccessFile" where
  "ReadIntoBuffer st offset n =
     (let n' = (if n > Capacity (buffer st) then Capacity (buffer st) else n);
          (s, result) = file_Read (raf_file st) offset n';
          st1 = st\<lparr>buffer := write_at_start result (buffer st),
                   io_calls := io_calls st @ [(offset, n')]\<rparr>
      in if s = OK
         then (s, st1\<lparr>buffer_offset := offset,
                     buffer := Size (buffer st1) (word_of_nat (length result))\<rparr>)
         else (s, st1))"

text \<open>
  \<^verbatim>\<open>Read(offset, n, ..., &result, scratch, ...)\<close>: the status, the bytes of
  \<^verbatim>\<open>*result\<close> (empty when the wrapper does not assign it) and the object afterwards.
  On the direct path the answer of the file is handed on as it is.
\<close>

definition Read :: "ReadaheadRandomAccessFile \<Rightarrow> u64 \<Rightarrow> u64 \<Rightarrow> IOStatus \<times> byte list \<times> ReadaheadRandomAccessFile" where
  "Read st offset n =
     (if n + alignment st \<ge> readahead_size st
      then (let (s, result) = file_Read (raf_file st) offset n
            in (s, result, st\<lparr>io_calls := io_calls st @ [(offset, n)]\<rparr>))
      else
        (let (hit, cached_len, bytes1) = TryReadFromCache st offset n
         in if hit \<and> (cached_len = n \<or> CurrentSize (buffer st) < readahead_size st)
            then (OK, bytes1, st)
            else
              (let advanced_offset = offset + cached_len;
                   chunk_offset = TruncateToPageBoundary (alignment st) advanced_offset;
                   (s, st') = ReadIntoBuffer st chunk_offset (readahead_size st)
               in if s = OK
                  then (let (hit2, remaining_len, bytes2) =
                              TryReadFromCache st' advanced_offset (n - cached_len)
                        in (s, bytes1 @ bytes2, st'))
                  else (s, [], st'))))"

text \<open>\<^verbatim>\<open>Prefetch(offset, n, ...)\<close>: the status and the object afterwards.\<close>

definition Prefetch :: "ReadaheadRandomAccessFile \<Rightarrow> u64 \<Rightarrow> u64 \<Rightarrow> IOStatus \<times> ReadaheadRandomAccessFile" where
  "Prefetch st offset n =
     (if n < readahead_size st
      then (OK, st)
      else
        (let prefetch_offset = TruncateToPageBoundary (alignment st) offset
         in if prefetch_offset = buffer_offset st
            then (OK, st)
            else ReadIntoBuffer st prefetch_offset
                   (Roundup (offset + n) (alignment st) - prefetch_offset)))"

text \<open>\<^verbatim>\<open>InvalidateCache(offset, length)\<close>: empties the buffer, then asks the file.\<close>

definition InvalidateCache :: "ReadaheadRandomAccessFile \<Rightarrow> u64 \<Rightarrow> u64 \<Rightarrow> IOStatus \<times> ReadaheadRandomAccessFile" where
  "InvalidateCache st offset len =
     (fs_invalidate (raf_file st) offset len, st\<lparr>buffer := Clear (buffer st)\<rparr>)"

text \<open>
  What the constructor establishes and every operation keeps: the buffer's capacity is
  the read-ahead size, its populated size is within the capacity, its memory has the
  capacity's length, and the cached offset is a page boundary.
\<close>

definition raf_inv :: "ReadaheadRandomAccessFile \<Rightarrow> bool" where
  "raf_inv st \<longleftrightarrow>
     Capacity (buffer st) = readahead_size st \<and>
     CurrentSize (buffer st) \<le> Capacity (buffer st) \<and>
     length (BufferStart (buffer st)) = unat (Capacity (buffer st)) \<and>
     TruncateToPageBoundary (alignment st) (buffer_offset st) = buffer_offset st"

subsection \<open>A concrete file and wrapper\<close>

text \<open>
  A file with 16 readable bytes and required alignment 4. Reads that start below offset
  16 are answered from the bytes (short where the readable bytes end); reads that start
  at offset 16 or beyond fail, after the call has written two bytes into the scratch
  area it was given.
\<close>

definition demo_bytes :: "byte list" where
  "demo_bytes = [10, 11, 12, 13, 14, 15, 16, 17, 18, 19, 20, 21, 22, 23, 24, 25]"

definition demo_file :: FSRandomAccessFile where
  "demo_file =
     \<lparr>fs_read = (\<lambda>offset n. if offset < 16
                               then (OK, take (unat n) (drop (unat offset) demo_bytes))
                               else (IOError ''bad sector'', [99, 99])),
      fs_alignment = 4,
      fs_invalidate = (\<lambda>offset len. OK)\<rparr>"

text \<open>
  The wrapper with read-ahead size 8 as constructed; after a successful prefetch of
  \<open>[4, 12)\<close> (a full buffer); after a successful prefetch at offset 12 that meets
  the end of the readable bytes (a short buffer); after a successful prefetch of
  \<open>[8, 16)\<close> (a full buffer that ends where reads begin to fail); and after the
  prefetch of \<open>[4, 12)\<close> followed by a prefetch at offset 16, whose read fails.
\<close>

definition demo_raf :: ReadaheadRandomAccessFile where
  "demo_raf = NewReadaheadRandomAccessFile demo_file 8"

definition demo_filled :: ReadaheadRandomAccessFile where
  "demo_filled = snd (Prefetch demo_raf 4 8)"



definition demo_torn :: ReadaheadRandomAccessFile where
  "demo_torn = snd (Prefetch demo_filled 16 8)"

section \<open>FilePrefetchBuffer (file/file\_prefetch\_buffer.h)\<close>

text \<open>
  The header declares the class; the bodies of its member functions are in
  \<^verbatim>\<open>file_prefetch_buffer.cc\<close>, which is not among the sources, and the excerpt of the
  header declares no data members. Translated from the header: \<^verbatim>\<open>DEFAULT_DECREMENT\<close>,
  \<^verbatim>\<open>ReadaheadParams\<close>, \<^verbatim>\<open>BufferInfo\<close>, \<^verbatim>\<open>GetPrefetchOffset\<close> and
  \<^verbatim>\<open>UpdateReadPattern\<close>. Every other operation below is modelled from the spec and
  says so. The quantities of the read-ahead policy are natural numbers: the spec states
  its arithmetic (doubling, cap, decrement, floor) without a width, and the inline code
  of the header only copies them.
\<close>

definition DEFAULT_DECREMENT :: nat where
  "DEFAULT_DECREMENT = 8 * 1024"

record ReadaheadParams =
  initial_readahead_size :: nat
  max_readahead_size :: nat
  implicit_auto_readahead :: bool
  num_file_reads :: nat
  num_file_reads_for_auto_readahead :: nat
  num_buffers :: nat

text \<open>The member initialisers of \<^verbatim>\<open>ReadaheadParams\<close>.\<close>

definition ReadaheadParams_default :: ReadaheadParams where
  "ReadaheadParams_default =
     \<lparr>initial_readahead_size = 0, max_readahead_size = 0, implicit_auto_readahead = False,
      num_file_reads = 0, num_file_reads_for_auto_readahead = 0, num_buffers = 1\<rparr>"

text \<open>
  \<^verbatim>\<open>BufferInfo\<close>: \<open>bi_buffer\<close> is \<^verbatim>\<open>buffer_\<close> and \<open>bi_offset\<close> is \<^verbatim>\<open>offset_\<close>;
  \<open>io_handle\<close> is \<open>None\<close> for \<^verbatim>\<open>nullptr\<close>. The deleter \<^verbatim>\<open>del_fn_\<close> is left out.
\<close>

record BufferInfo =
  bi_buffer :: AlignedBuffer
  bi_offset :: u64
  async_req_len :: u64
  async_read_in_progress :: bool
  io_handle :: "nat option"
  initial_end_offset :: u64

definition DoesBufferContainData :: "BufferInfo \<Rightarrow> bool" where
  "DoesBufferContainData b \<longleftrightarrow> CurrentSize (bi_buffer b) > 0"

text \<open>A block as the member initialisers of \<^verbatim>\<open>BufferInfo\<close> leave it, placed at an offset.\<close>

definition empty_block :: "u64 \<Rightarrow> BufferInfo" where
  "empty_block off =
     \<lparr>bi_buffer = \<lparr>buf_alignment = 0, capacity = 0, cursize = 0, bufstart = []\<rparr>,
      bi_offset = off, async_req_len = 0, async_read_in_progress = False,
      io_handle = None, initial_end_offset = 0\<rparr>"

text \<open>
  The object. The names \<open>bufs\<close>, \<open>prev_offset\<close>, \<open>prev_len\<close>,
  \<open>explicit_prefetch_submitted\<close>, \<open>fpb_readahead_size\<close> (\<^verbatim>\<open>readahead_size_\<close>) and
  \<open>fpb_num_file_reads\<close> (\<^verbatim>\<open>num_file_reads_\<close>) are the members the inline code of the
  header uses; the others hold the parameters. \<^verbatim>\<open>bufs_\<close> is a deque of blocks, front
  first.
\<close>

record FilePrefetchBuffer =
  bufs :: "BufferInfo list"
  fpb_num_buffers :: nat
  fpb_readahead_size :: nat
  initial_auto_readahead_size :: nat
  fpb_max_readahead_size :: nat
  fpb_implicit_auto_readahead :: bool
  fpb_num_file_reads :: nat
  fpb_num_file_reads_for_auto_readahead :: nat
  prev_offset :: nat
  prev_len :: nat
  explicit_prefetch_submitted :: bool

text \<open>
  Modelled from the spec: the constructor is not among the sources. The current
  read-ahead size starts at the configured initial value, the block set starts empty.
\<close>

definition NewFilePrefetchBuffer :: "ReadaheadParams \<Rightarrow> FilePrefetchBuffer" where
  "NewFilePrefetchBuffer p =
     \<lparr>bufs = [], fpb_num_buffers = num_buffers p,
      fpb_readahead_size = initial_readahead_size p,
      initial_auto_readahead_size = initial_readahead_size p,
      fpb_max_readahead_size = max_readahead_size p,
      fpb_implicit_auto_readahead = implicit_auto_readahead p,
      fpb_num_file_reads = num_file_reads p,
      fpb_num_file_reads_for_auto_readahead = num_file_reads_for_auto_readahead p,
      prev_offset = 0, prev_len = 0, explicit_prefetch_submitted = False\<rparr>"

text \<open>
  Outcomes that are not a value. \<open>PreconditionViolation\<close> and \<open>CapacityExceeded\<close>
  are the spec's; \<open>UndefinedBehaviour\<close> marks what C++ leaves undefined.
\<close>

datatype fault = PreconditionViolation | CapacityExceeded | UndefinedBehaviour

text \<open>
  \<^verbatim>\<open>size_t GetPrefetchOffset() const { return bufs_.front()->offset_; }\<close>, from the
  header. It tests nothing; \<^verbatim>\<open>front()\<close> of an empty deque is undefined behaviour.
\<close>

definition GetPrefetchOffset :: "FilePrefetchBuffer \<Rightarrow> fault + u64" where
  "GetPrefetchOffset fpb =
     (case bufs fpb of [] \<Rightarrow> Inl UndefinedBehaviour | b # rest \<Rightarrow> Inr (bi_offset b))"

text \<open>
  Modelled from the spec: \<^verbatim>\<open>IsBlockSequential\<close> is only declared. A read is
  sequential if its offset equals the previous read's offset plus its length.
\<close>

definition IsBlockSequential :: "FilePrefetchBuffer \<Rightarrow> nat \<Rightarrow> bool" where
  "IsBlockSequential fpb offset \<longleftrightarrow> offset = prev_offset fpb + prev_len fpb"

text \<open>
  Modelled from the spec: \<^verbatim>\<open>DecreaseReadAheadIfEligible\<close> is only declared. A read
  that breaks the sequential chain resets the sequential counter; if the pattern had
  been sequential and the read-ahead size had grown past the initial size, the size is
  reduced by the decrement, down to the floor of the initial size.
\<close>

definition DecreaseReadAheadIfEligible :: "FilePrefetchBuffer \<Rightarrow> nat \<Rightarrow> nat \<Rightarrow> nat \<Rightarrow> FilePrefetchBuffer" where
  "DecreaseReadAheadIfEligible fpb offset sz dec =
     (if IsBlockSequential fpb offset then fpb
      else if 0 < fpb_num_file_reads fpb \<and> initial_auto_readahead_size fpb < fpb_readahead_size fpb
      then fpb\<lparr>fpb_readahead_size := max (initial_auto_readahead_size fpb) (fpb_readahead_size fpb - dec),
               fpb_num_file_reads := 0\<rparr>
      else fpb\<lparr>fpb_num_file_reads := 0\<rparr>)"

text \<open>
  \<^verbatim>\<open>UpdateReadPattern(offset, len, decrease_readaheadsize)\<close>, from the header; the
  call passes no decrement, so the default argument \<^verbatim>\<open>DEFAULT_DECREMENT\<close> is used.
\<close>

definition UpdateReadPattern :: "FilePrefetchBuffer \<Rightarrow> nat \<Rightarrow> nat \<Rightarrow> bool \<Rightarrow> FilePrefetchBuffer" where
  "UpdateReadPattern fpb offset len decrease_readaheadsize =
     (let fpb1 = (if decrease_readaheadsize
                  then DecreaseReadAheadIfEligible fpb offset len DEFAULT_DECREMENT
                  else fpb)
      in fpb1\<lparr>prev_offset := offset, prev_len := len, explicit_prefetch_submitted := False\<rparr>)"

text \<open>
  Modelled from the spec: the bookkeeping of the sequential pattern detector on a full
  miss of \<^verbatim>\<open>TryReadFromCache\<close>, whose body is not among the sources. The compaction
  mode suppresses the adaptive side effects. A pending explicit prefetch, or implicit
  read-ahead switched off, suppresses the adaptive bookkeeping: the read is only
  recorded. Implicit read-ahead is active once the counter has reached
  \<^verbatim>\<open>num_file_reads_for_auto_readahead\<close> consecutive sequential reads; an active
  sequential miss doubles the read-ahead size, capped at the maximum. A miss that breaks
  the chain goes through \<^verbatim>\<open>DecreaseReadAheadIfEligible\<close>.
\<close>

definition OnCacheMiss :: "FilePrefetchBuffer \<Rightarrow> nat \<Rightarrow> nat \<Rightarrow> bool \<Rightarrow> FilePrefetchBuffer" where
  "OnCacheMiss fpb offset len for_compaction =
     (if for_compaction then fpb
      else if explicit_prefetch_submitted fpb \<or> \<not> fpb_implicit_auto_readahead fpb
      then UpdateReadPattern fpb offset len False
      else if IsBlockSequential fpb offset
      then (let grown =
                  (if fpb_num_file_reads_for_auto_readahead fpb \<le> fpb_num_file_reads fpb
                   then fpb\<lparr>fpb_readahead_size :=
                              min (fpb_max_readahead_size fpb) (2 * fpb_readahead_size fpb)\<rparr>
                   else fpb)
            in UpdateReadPattern (grown\<lparr>fpb_num_file_reads := fpb_num_file_reads fpb + 1\<rparr>)
                 offset len False)
      else UpdateReadPattern fpb offset len True)"

text \<open>
  The block set operations are only declared in the header; they are modelled from
  section 4.1 of the spec.
\<close>

text \<open>
  Modelled from the spec: \<^verbatim>\<open>NumBuffersAllocated\<close> is only declared. The number of
  live blocks.
\<close>

definition NumBuffersAllocated :: "FilePrefetchBuffer \<Rightarrow> nat" where
  "NumBuffersAllocated fpb = length (bufs fpb)"

text \<open>
  Modelled from the spec: \<^verbatim>\<open>AllocateBuffer\<close> is only declared. \<open>allocate\<close> adds a
  block at the back if the set is under capacity and fails with \<open>CapacityExceeded\<close>
  otherwise.
\<close>

definition AllocateBuffer :: "FilePrefetchBuffer \<Rightarrow> fault + FilePrefetchBuffer" where
  "AllocateBuffer fpb =
     (if NumBuffersAllocated fpb < fpb_num_buffers fpb
      then Inr (fpb\<lparr>bufs := bufs fpb @ [empty_block 0]\<rparr>)
      else Inl CapacityExceeded)"

text \<open>
  Modelled from the spec: \<^verbatim>\<open>FreeFrontBuffer\<close>, \<^verbatim>\<open>FreeLastBuffer\<close> and
  \<^verbatim>\<open>FreeAllBuffers\<close> are only declared. \<open>freeFront\<close>, \<open>freeBack\<close> and
  \<open>freeAll\<close> release the front block, the back block and every block.
\<close>

definition FreeFrontBuffer :: "FilePrefetchBuffer \<Rightarrow> FilePrefetchBuffer" where
  "FreeFrontBuffer fpb = fpb\<lparr>bufs := (case bufs fpb of [] \<Rightarrow> [] | b # rest \<Rightarrow> rest)\<rparr>"

definition FreeLastBuffer :: "FilePrefetchBuffer \<Rightarrow> FilePrefetchBuffer" where
  "FreeLastBuffer fpb = fpb\<lparr>bufs := butlast (bufs fpb)\<rparr>"

definition FreeAllBuffers :: "FilePrefetchBuffer \<Rightarrow> FilePrefetchBuffer" where
  "FreeAllBuffers fpb = fpb\<lparr>bufs := []\<rparr>"

text \<open>
  Modelled from the spec: \<^verbatim>\<open>FreeEmptyBuffers\<close> is only declared. \<open>freeEmptyBlocks\<close>
  reclaims the blocks whose current size is 0 and that have no fetch in progress.
\<close>

definition FreeEmptyBuffers :: "FilePrefetchBuffer \<Rightarrow> FilePrefetchBuffer" where
  "FreeEmptyBuffers fpb =
     fpb\<lparr>bufs := filter (\<lambda>b. async_read_in_progress b \<or> DoesBufferContainData b) (bufs fpb)\<rparr>"

text \<open>
  Modelled from the spec: the fetch path that needs a new block is not among the
  sources. Section 4.3 of the spec: at capacity the block with the oldest offset is
  evicted first, and a block with an unfinished fetch overlapping the new requested
  range is never evicted.

  \<open>fetch_overlaps b off len\<close>: block \<open>b\<close> has a fetch in progress whose range
  \<open>[offset, offset + async_req_len)\<close> overlaps the requested range
  \<open>[off, off + len)\<close>.
\<close>

definition fetch_overlaps :: "BufferInfo \<Rightarrow> u64 \<Rightarrow> u64 \<Rightarrow> bool" where
  "fetch_overlaps b off len \<longleftrightarrow>
     async_read_in_progress b \<and>
     unat (bi_offset b) < unat off + unat len \<and>
     unat off < unat (bi_offset b) + unat (async_req_len b)"

text \<open>
  Modelled from the spec: the block to evict for a fetch of \<open>[off, off + len)\<close>. The
  candidates are the blocks without an unfinished fetch overlapping that range; among
  them the one with the lowest offset is chosen (the first such block of the sequence if
  several have that offset). There is no block to evict if there is no candidate.
\<close>

definition eviction_victim :: "FilePrefetchBuffer \<Rightarrow> u64 \<Rightarrow> u64 \<Rightarrow> BufferInfo option" where
  "eviction_victim fpb off len =
     (case filter (\<lambda>b. \<not> fetch_overlaps b off len) (bufs fpb) of
        [] \<Rightarrow> None
      | c # cs \<Rightarrow> Some (arg_min_list bi_offset (c # cs)))"

text \<open>
  Modelled from the spec: a block becomes the target of a fetch of \<open>len\<close> bytes at
  \<open>off\<close>. Section 4.5: an asynchronous fetch stores the handle and the requested
  length on the block and sets the in-progress flag.
\<close>

definition issue_fetch :: "u64 \<Rightarrow> u64 \<Rightarrow> bool \<Rightarrow> BufferInfo \<Rightarrow> BufferInfo" where
  "issue_fetch off len in_flight b =
     b\<lparr>bi_offset := off,
       async_req_len := (if in_flight then len else 0),
       async_read_in_progress := in_flight,
       io_handle := (if in_flight then Some 0 else None)\<rparr>"

text \<open>
  Modelled from the spec: the back block, the one just allocated, becomes the target of
  the fetch.
\<close>

definition place_last :: "u64 \<Rightarrow> u64 \<Rightarrow> bool \<Rightarrow> FilePrefetchBuffer \<Rightarrow> FilePrefetchBuffer" where
  "place_last off len in_flight fpb =
     fpb\<lparr>bufs := (case rev (bufs fpb) of [] \<Rightarrow> []
                   | b # earlier \<Rightarrow> rev earlier @ [issue_fetch off len in_flight b])\<rparr>"

text \<open>
  Modelled from the spec: a new block is needed for a fetch of \<open>[off, off + len)\<close>,
  asynchronous if \<open>in_flight\<close>. Under capacity the block is allocated at the back.
  The capacity signal never reaches the caller: at capacity the eviction victim is
  released, then the block is allocated at the back. If every block has an unfinished
  fetch overlapping the requested range, nothing is evicted and no block is added: the
  caller is left to the blocks whose fetches are under way.
\<close>

definition AcquireBuffer :: "FilePrefetchBuffer \<Rightarrow> u64 \<Rightarrow> u64 \<Rightarrow> bool \<Rightarrow> FilePrefetchBuffer" where
  "AcquireBuffer fpb off len in_flight =
     (case AllocateBuffer fpb of
        Inr fpb1 \<Rightarrow> place_last off len in_flight fpb1
      | Inl e \<Rightarrow>
          (case eviction_victim fpb off len of
             None \<Rightarrow> fpb
           | Some victim \<Rightarrow>
               (case AllocateBuffer (fpb\<lparr>bufs := remove1 victim (bufs fpb)\<rparr>) of
                  Inr fpb2 \<Rightarrow> place_last off len in_flight fpb2
                | Inl e2 \<Rightarrow> fpb)))"

text \<open>
  Modelled from the spec: \<^verbatim>\<open>PrefetchAsyncCallback\<close> is only declared. Section 4.5:
  the completion callback of the fetch issued at \<open>off\<close> sets the current size of its
  block from the completed byte count, clears the in-progress flag and releases the
  handle.
\<close>

definition PrefetchAsyncCallback :: "FilePrefetchBuffer \<Rightarrow> u64 \<Rightarrow> u64 \<Rightarrow> FilePrefetchBuffer" where
  "PrefetchAsyncCallback fpb off completed =
     fpb\<lparr>bufs := map (\<lambda>b. if async_read_in_progress b \<and> bi_offset b = off
                            then b\<lparr>bi_buffer := Size (bi_buffer b) completed,
                                   async_read_in_progress := False, io_handle := None\<rparr>
                            else b) (bufs fpb)\<rparr>"

text \<open>
  Modelled from the spec: \<^verbatim>\<open>AbortAllIOs\<close> is only declared. \<open>abortAllIOs\<close> leaves
  no block with a fetch in progress, and every handle released.
\<close>

definition AbortAllIOs :: "FilePrefetchBuffer \<Rightarrow> FilePrefetchBuffer" where
  "AbortAllIOs fpb =
     fpb\<lparr>bufs := map (\<lambda>b. b\<lparr>async_read_in_progress := False, io_handle := None\<rparr>) (bufs fpb)\<rparr>"

text \<open>
  Sequences of operations on one prefetch buffer: a full miss of the cache lookup, the
  read-pattern hook, an explicit prefetch (modelled from the spec: it sets the pending
  flag that \<^verbatim>\<open>UpdateReadPattern\<close> clears), an allocation (a failed one changes
  nothing), the need for a block for a synchronous or an asynchronous fetch of a range,
  the completion of an asynchronous fetch, the abort of all of them, and the operations
  that free blocks.
\<close>

datatype fpb_op =
    CacheMiss nat nat bool
  | ReadPattern nat nat bool
  | ExplicitPrefetch
  | Allocate
  | NeedBuffer u64 u64 bool
  | AsyncDone u64 u64
  | AbortAll
  | FreeFront
  | FreeLast
  | FreeAll
  | FreeEmpty

fun fpb_step :: "FilePrefetchBuffer \<Rightarrow> fpb_op \<Rightarrow> FilePrefetchBuffer" where
  "fpb_step fpb (CacheMiss offset len for_compaction) = OnCacheMiss fpb offset len for_compaction"
| "fpb_step fpb (ReadPattern offset len decrease) = UpdateReadPattern fpb offset len decrease"
| "fpb_step fpb ExplicitPrefetch = fpb\<lparr>explicit_prefetch_submitted := True\<rparr>"
| "fpb_step fpb Allocate = (case AllocateBuffer fpb of Inr fpb1 \<Rightarrow> fpb1 | Inl e \<Rightarrow> fpb)"
| "fpb_step fpb (NeedBuffer off len in_flight) = AcquireBuffer fpb off len in_flight"
| "fpb_step fpb (AsyncDone off completed) = PrefetchAsyncCallback fpb off completed"
| "fpb_step fpb AbortAll = AbortAllIOs fpb"
| "fpb_step fpb FreeFront = FreeFrontBuffer fpb"
| "fpb_step fpb FreeLast = FreeLastBuffer fpb"
| "fpb_step fpb FreeAll = FreeAllBuffers fpb"
| "fpb_step fpb FreeEmpty = FreeEmptyBuffers fpb"

fun fpb_run :: "FilePrefetchBuffer \<Rightarrow> fpb_op list \<Rightarrow> FilePrefetchBuffer" where
  "fpb_run fpb [] = fpb"
| "fpb_run fpb (op # ops) = fpb_run (fpb_step fpb op) ops"

subsection \<open>Concrete parameters\<close>

definition demo_params :: ReadaheadParams where
  "demo_params =
     \<lparr>initial_readahead_size = 4096, max_readahead_size = 16384, implicit_auto_readahead = True,
      num_file_reads = 0, num_file_reads_for_auto_readahead = 2, num_buffers = 2\<rparr>"

definition inverted_params :: ReadaheadParams where
  "inverted_params =
     \<lparr>initial_readahead_size = 8192, max_readahead_size = 4096, implicit_auto_readahead = True,
      num_file_reads = 0, num_file_reads_for_auto_readahead = 2, num_buffers = 2\<rparr>"

text \<open>A prefetch buffer given by its blocks, with the policy fields of \<open>demo_params\<close>.\<close>

definition demo_fpb :: "BufferInfo list \<Rightarrow> FilePrefetchBuffer" where
  "demo_fpb bs =
     \<lparr>bufs = bs, fpb_num_buffers = 2, fpb_readahead_size = 4096,
      initial_auto_readahead_size = 4096, fpb_max_readahead_size = 16384,
      fpb_implicit_auto_readahead = True, fpb_num_file_reads = 0,
      fpb_num_file_reads_for_auto_readahead = 2, prev_offset = 0, prev_len = 0,
      explicit_prefetch_submitted = False\<rparr>"

text \<open>Two, three and four contiguous misses of 100 bytes each, from offset 0.\<close>

definition scan2 :: "fpb_op list" where
  "scan2 = [CacheMiss 0 100 False, CacheMiss 100 100 False]"

definition scan3 :: "fpb_op list" where
  "scan3 = scan2 @ [CacheMiss 200 100 False]"


text \<open>
  Two blocks of 4096 bytes needed in turn for synchronous fetches, at increasing offsets
  and at decreasing offsets, and a third one after each.
\<close>

definition need2 :: "fpb_op list" where
  "need2 = [NeedBuffer 0 4096 False, NeedBuffer 4096 4096 False]"

definition need2_down :: "fpb_op list" where
  "need2_down = [NeedBuffer 4096 4096 False, NeedBuffer 0 4096 False]"

definition need3 :: "fpb_op list" where
  "need3 = need2 @ [NeedBuffer 8192 4096 False]"

text \<open>
  An asynchronous fetch of \<open>[0, 8192)\<close> that stays in progress, then a block for a
  synchronous fetch of \<open>[16384, 20480)\<close>.
\<close>

definition need2_async :: "fpb_op list" where
  "need2_async = [NeedBuffer 0 8192 True, NeedBuffer 16384 4096 False]"

section \<open>Lemmas on words and the helpers\<close>

lemma TruncateToPageBoundary_and_not:
  "TruncateToPageBoundary a s = s AND NOT (a - 1)"
proof -
  have "s - (s AND (a - 1)) = s AND NOT (s AND (a - 1))"
    by (rule disjunctive_diff_eq_and_not) (rule bit_eqI, simp add: bit_and_iff bit_not_iff)
  also have "\<dots> = s AND NOT (a - 1)"
    by (rule bit_eqI) (auto simp add: bit_and_iff bit_not_iff bit_or_iff)
  finally show ?thesis by (simp add: TruncateToPageBoundary_def)
qed

lemma TruncateToPageBoundary_idem:
  "TruncateToPageBoundary a (TruncateToPageBoundary a s) = TruncateToPageBoundary a s"
  by (simp add: TruncateToPageBoundary_and_not and.assoc)

lemma TruncateToPageBoundary_zero: "TruncateToPageBoundary a 0 = 0"
  by (simp add: TruncateToPageBoundary_def)

lemma hit_bounds:
  assumes "\<not> (offset < bo \<or> offset \<ge> bo + (cs::u64))"
  shows "unat bo \<le> unat offset \<and> unat offset < unat bo + unat cs \<and> unat bo + unat cs < 2 ^ 64"
proof -
  from assms have a: "bo \<le> offset" and b: "offset < bo + cs" by auto
  have c: "unat bo \<le> unat offset" using a by (simp add: word_le_nat_alt)
  have d: "unat offset < unat (bo + cs)" using b by (simp add: word_less_nat_alt)
  have e: "unat (bo + cs) = (unat bo + unat cs) mod 2 ^ 64" by (simp add: unat_word_ariths)
  have f: "unat bo < 2 ^ 64" "unat cs < 2 ^ 64" using unsigned_less [of bo] unsigned_less [of cs] by simp_all
  show ?thesis
  proof (cases "unat bo + unat cs < 2 ^ 64")
    case True
    then show ?thesis using c d e by simp
  next
    case False
    then have "(unat bo + unat cs) mod 2 ^ 64 = unat bo + unat cs - 2 ^ 64"
      using f by (simp add: mod_if)
    then have "unat (bo + cs) < unat bo" using e f False by linarith
    then show ?thesis using c d by linarith
  qed
qed

lemma unat_avail:
  assumes "unat bo \<le> unat offset" and "unat offset < unat bo + unat (cs::u64)"
  shows "unat (cs - (offset - bo)) = unat cs - (unat offset - unat bo)"
proof -
  have le: "bo \<le> offset" using assms(1) by (simp add: word_le_nat_alt)
  have sub: "unat (offset - bo) = unat offset - unat bo" using le by (rule unat_sub)
  have "offset - bo \<le> cs" using assms sub by (simp add: word_le_nat_alt)
  then show ?thesis using sub by (simp add: unat_sub)
qed

lemma Roundup_pow2:
  assumes "k < 64"
  shows "Roundup x (2 ^ k) = push_bit k (drop_bit k (x + mask k))"
proof -
  have e: "x + 2 ^ k - 1 = x + mask k"
    by (simp add: mask_eq_exp_minus_1)
  show ?thesis
    unfolding Roundup_def e by (simp add: drop_bit_eq_div push_bit_eq_mult)
qed

lemma Roundup_pow2_idem:
  assumes "k < 64"
  shows "Roundup (Roundup x (2 ^ k)) (2 ^ k) = Roundup x (2 ^ k)"
proof -
  let ?R = "push_bit k (drop_bit k (x + mask k)) :: u64"
  have disj: "?R AND mask k = 0"
    by (rule bit_eqI) (auto simp add: bit_simps)
  have "?R + mask k = ?R OR mask k"
    using disj by (rule disjunctive_add_eq_or)
  moreover have "push_bit k (drop_bit k (?R OR mask k)) = ?R"
    by (rule bit_eqI) (auto simp add: bit_simps)
  ultimately show ?thesis
    using assms by (simp add: Roundup_pow2)
qed

section \<open>Lemmas on the wrapper\<close>

lemma file_Read_length: "length (snd (file_Read f offset n)) \<le> unat n"
  by (simp add: file_Read_def split: prod.splits)

lemma unat_length_file_Read:
  "unat (word_of_nat (length (snd (file_Read f offset n))) :: u64) = length (snd (file_Read f offset n))"
  by (rule le_unat_uoi [OF file_Read_length])

lemma fetch_len_eq: "(if n > Capacity b then Capacity b else n) = min n (Capacity b)"
  by (auto simp add: min_def)

lemma ReadIntoBuffer_unfold:
  "ReadIntoBuffer st offset n =
     (let n' = min n (Capacity (buffer st));
          s = fst (file_Read (raf_file st) offset n');
          r = snd (file_Read (raf_file st) offset n');
          st1 = st\<lparr>buffer := write_at_start r (buffer st),
                   io_calls := io_calls st @ [(offset, n')]\<rparr>
      in if s = OK
         then (OK, st1\<lparr>buffer_offset := offset,
                      buffer := Size (buffer st1) (word_of_nat (length r))\<rparr>)
         else (s, st1))"
  unfolding ReadIntoBuffer_def fetch_len_eq
  by (simp add: Let_def split: prod.splits)



lemma TryReadFromCache_hit:
  assumes "unat (buffer_offset st) \<le> unat offset"
    and "unat offset < unat (buffer_offset st) + unat (CurrentSize (buffer st))"
    and "unat (buffer_offset st) + unat (CurrentSize (buffer st)) < 2 ^ 64"
  shows "TryReadFromCache st offset n =
           (True, min (CurrentSize (buffer st) - (offset - buffer_offset st)) n,
            take (unat (min (CurrentSize (buffer st) - (offset - buffer_offset st)) n))
              (drop (unat offset - unat (buffer_offset st)) (BufferStart (buffer st))))"
proof -
  have le: "buffer_offset st \<le> offset"
    using assms(1) by (simp add: word_le_nat_alt)
  have "unat (buffer_offset st + CurrentSize (buffer st)) =
          unat (buffer_offset st) + unat (CurrentSize (buffer st))"
    using assms(3) unat_add_lem [of "buffer_offset st" "CurrentSize (buffer st)"] by simp
  then have lt: "offset < buffer_offset st + CurrentSize (buffer st)"
    using assms(2) by (simp add: word_less_nat_alt)
  have sub: "unat (offset - buffer_offset st) = unat offset - unat (buffer_offset st)"
    using le by (rule unat_sub)
  show ?thesis
    using le lt by (simp add: TryReadFromCache_def Let_def sub not_less not_le)
qed

lemma TryReadFromCache_len:
  "TryReadFromCache st offset n = (h, l, bs) \<Longrightarrow> l \<le> n \<and> length bs \<le> unat l"
  by (auto simp add: TryReadFromCache_def Let_def split: if_splits)


subsection \<open>The invariant is established and kept\<close>

text \<open>
  The constructor establishes the invariant when the required alignment is a power of
  two, which is what \<^verbatim>\<open>AlignedBuffer\<close> asks of an alignment; every operation keeps
  it.
\<close>

lemma raf_inv_New:
  assumes "k < 64" and "fs_alignment f = 2 ^ k"
  shows "raf_inv (NewReadaheadRandomAccessFile f requested)"
  using assms
  by (simp add: raf_inv_def NewReadaheadRandomAccessFile_def Let_def AllocateNewBuffer_def
      Alignment_def Capacity_def CurrentSize_def BufferStart_def Roundup_pow2_idem
      TruncateToPageBoundary_zero)

lemma raf_inv_ReadIntoBuffer:
  assumes inv: "raf_inv st"
    and al: "TruncateToPageBoundary (alignment st) offset = offset"
  shows "raf_inv (snd (ReadIntoBuffer st offset n))"
proof -
  let ?n = "min n (Capacity (buffer st))"
  let ?r = "snd (file_Read (raf_file st) offset ?n)"
  have cap: "length (BufferStart (buffer st)) = unat (Capacity (buffer st))"
    and cs: "CurrentSize (buffer st) \<le> Capacity (buffer st)"
    and rs: "Capacity (buffer st) = readahead_size st"
    and bo: "TruncateToPageBoundary (alignment st) (buffer_offset st) = buffer_offset st"
    using inv by (auto simp add: raf_inv_def)
  have "unat ?n \<le> unat (Capacity (buffer st))"
    by (simp add: word_le_nat_alt [symmetric])
  then have len: "length ?r \<le> unat (Capacity (buffer st))"
    using file_Read_length [of "raf_file st" offset ?n] by linarith
  have "unat (word_of_nat (length ?r) :: u64) = length ?r"
    by (rule unat_length_file_Read)
  then have le: "(word_of_nat (length ?r) :: u64) \<le> capacity (buffer st)"
    using len by (simp add: word_le_nat_alt Capacity_def)
  have mem: "length (?r @ drop (length ?r) (bufstart (buffer st))) = unat (capacity (buffer st))"
    using len cap by (simp add: BufferStart_def Capacity_def)
  show ?thesis
    using rs cs bo al le mem cap
    by (simp add: raf_inv_def ReadIntoBuffer_unfold Let_def Capacity_def CurrentSize_def
        BufferStart_def Size_def write_at_start_def del: length_append)
qed

lemma raf_inv_Prefetch: "raf_inv st \<Longrightarrow> raf_inv (snd (Prefetch st offset n))"
  by (simp add: Prefetch_def Let_def raf_inv_ReadIntoBuffer TruncateToPageBoundary_idem)

lemma raf_inv_Read: "raf_inv st \<Longrightarrow> raf_inv (snd (snd (Read st offset n)))"
proof -
  assume inv: "raf_inv st"
  have a: "raf_inv (st\<lparr>io_calls := c\<rparr>)" for c
    using inv by (auto simp add: raf_inv_def)
  have b: "raf_inv x2"
    if "ReadIntoBuffer st (TruncateToPageBoundary (alignment st) x) m = (s, x2)" for x m s x2
    using raf_inv_ReadIntoBuffer [OF inv TruncateToPageBoundary_idem, of x m] that by simp
  show ?thesis
    using inv a b
    by (auto simp add: Read_def Let_def split: prod.splits if_splits)
qed

lemma raf_inv_InvalidateCache: "raf_inv st \<Longrightarrow> raf_inv (snd (InvalidateCache st offset len))"
  by (auto simp add: raf_inv_def InvalidateCache_def Clear_def Capacity_def CurrentSize_def BufferStart_def)

subsection \<open>Further properties of the wrapper\<close>

text \<open>
  A prefetch repeated right after a successful one is a no-op, whatever the buffer
  covers; a read never returns more bytes than were asked for; after
  \<^verbatim>\<open>InvalidateCache\<close> every lookup misses.
\<close>

lemma ReadIntoBuffer_OK_offset:
  "ReadIntoBuffer st offset n = (OK, st1) \<Longrightarrow>
     buffer_offset st1 = offset \<and> readahead_size st1 = readahead_size st \<and>
     alignment st1 = alignment st"
  by (auto simp add: ReadIntoBuffer_unfold Let_def split: if_splits)

lemma Prefetch_repeated_is_noop:
  assumes "Prefetch st offset n = (OK, st1)"
  shows "Prefetch st1 offset n = (OK, st1)"
proof (cases "n < readahead_size st \<or> TruncateToPageBoundary (alignment st) offset = buffer_offset st")
  case True
  then have "st1 = st" using assms by (auto simp add: Prefetch_def Let_def split: if_splits)
  then show ?thesis using assms by simp
next
  case False
  then have "ReadIntoBuffer st (TruncateToPageBoundary (alignment st) offset)
               (Roundup (offset + n) (alignment st) - TruncateToPageBoundary (alignment st) offset)
             = (OK, st1)"
    using assms by (simp add: Prefetch_def Let_def)
  from ReadIntoBuffer_OK_offset [OF this] False show ?thesis
    by (simp add: Prefetch_def Let_def)
qed

lemma Read_result_length: "length (fst (snd (Read st offset n))) \<le> unat n"
proof (cases "n + alignment st \<ge> readahead_size st")
  case True
  then show ?thesis
    using file_Read_length [of "raf_file st" offset n]
    by (auto simp add: Read_def split: prod.splits)
next
  case False
  obtain h cl b1 where t1: "TryReadFromCache st offset n = (h, cl, b1)"
    by (cases "TryReadFromCache st offset n") auto
  have cl: "cl \<le> n" and b1: "length b1 \<le> unat cl"
    using TryReadFromCache_len [OF t1] by simp_all
  let ?f = "ReadIntoBuffer st (TruncateToPageBoundary (alignment st) (offset + cl)) (readahead_size st)"
  obtain h2 l2 b2 where t2: "TryReadFromCache (snd ?f) (offset + cl) (n - cl) = (h2, l2, b2)"
    by (cases "TryReadFromCache (snd ?f) (offset + cl) (n - cl)") auto
  have "l2 \<le> n - cl" and "length b2 \<le> unat l2"
    using TryReadFromCache_len [OF t2] by simp_all
  then have "length b2 \<le> unat (n - cl)" by (simp add: word_le_nat_alt)
  then have b2: "length b2 \<le> unat n - unat cl" using cl by (simp add: unat_sub)
  have ucl: "unat cl \<le> unat n" using cl by (simp add: word_le_nat_alt)
  have sum: "length b1 + length b2 \<le> unat n" using b1 b2 ucl by linarith
  have one: "length b1 \<le> unat n" using b1 ucl by linarith
  show ?thesis
    using False t1 t2 sum one
    by (auto simp add: Read_def Let_def split: prod.splits)
qed

text \<open>
  The test of the direct path adds in \<^verbatim>\<open>size_t\<close>. Where length plus alignment stays
  below \<open>2 ^ 64\<close>, as for every length a caller's scratch area can have, the test is
  the comparison of the unbounded numbers.
\<close>

lemma direct_path_test:
  assumes "unat n + unat (alignment st) < 2 ^ 64"
  shows "n + alignment st \<ge> readahead_size st \<longleftrightarrow>
           unat (readahead_size st) \<le> unat n + unat (alignment st)"
proof -
  have "unat (n + alignment st) = unat n + unat (alignment st)"
    using assms unat_add_lem [of n "alignment st"] by simp
  then show ?thesis by (simp add: word_le_nat_alt)
qed

lemma InvalidateCache_misses:
  "TryReadFromCache (snd (InvalidateCache st o1 l1)) offset n = (False, 0, [])"
  by (auto simp add: TryReadFromCache_def InvalidateCache_def Clear_def CurrentSize_def)

subsection \<open>The concrete wrapper, evaluated\<close>

lemma demo_raf_eq:
  "demo_raf = \<lparr>raf_file = demo_file, alignment = 4, readahead_size = 8,
       buffer = \<lparr>buf_alignment = 4, capacity = 8, cursize = 0, bufstart = [0, 0, 0, 0, 0, 0, 0, 0]\<rparr>,
       buffer_offset = 0, io_calls = []\<rparr>"
proof -
  have r: "replicate 8 (0::byte) = [0, 0, 0, 0, 0, 0, 0, 0]"
    by (simp add: numeral_eq_Suc)
  show ?thesis
    by (simp add: demo_raf_def NewReadaheadRandomAccessFile_def demo_file_def Roundup_def
      AllocateNewBuffer_def Alignment_def Let_def r)
qed

lemma demo_filled_eq:
  "Prefetch demo_raf 4 8 = (OK, 
     \<lparr>raf_file = demo_file, alignment = 4, readahead_size = 8,
       buffer = \<lparr>buf_alignment = 4, capacity = 8, cursize = 8, bufstart = [14, 15, 16, 17, 18, 19, 20, 21]\<rparr>,
       buffer_offset = 4, io_calls = [(4, 8)]\<rparr>)"
  by (simp add: demo_raf_eq Prefetch_def ReadIntoBuffer_def TruncateToPageBoundary_def Roundup_def
      Capacity_def file_Read_def demo_file_def demo_bytes_def write_at_start_def Size_def Let_def)

lemma demo_filled_rec:
  "demo_filled =
     \<lparr>raf_file = demo_file, alignment = 4, readahead_size = 8,
       buffer = \<lparr>buf_alignment = 4, capacity = 8, cursize = 8,
                  bufstart = [14, 15, 16, 17, 18, 19, 20, 21]\<rparr>,
       buffer_offset = 4, io_calls = [(4, 8)]\<rparr>"
  by (simp add: demo_filled_def demo_filled_eq)



lemma demo_fetch: "ReadIntoBuffer demo_raf 4 8 = (OK, demo_filled)"
  by (simp add: demo_filled_rec demo_raf_eq ReadIntoBuffer_def
      Capacity_def file_Read_def demo_file_def demo_bytes_def write_at_start_def Size_def Let_def)

lemma demo_filled_inv: "raf_inv demo_filled"
  by (simp add: raf_inv_def demo_filled_rec Capacity_def CurrentSize_def BufferStart_def
      TruncateToPageBoundary_def)



lemma demo_torn_rec:
  "demo_torn =
     \<lparr>raf_file = demo_file, alignment = 4, readahead_size = 8,
       buffer = \<lparr>buf_alignment = 4, capacity = 8, cursize = 8,
                  bufstart = [99, 99, 16, 17, 18, 19, 20, 21]\<rparr>,
       buffer_offset = 4, io_calls = [(4, 8), (16, 8)]\<rparr>"
  by (simp add: demo_torn_def demo_filled_rec Prefetch_def ReadIntoBuffer_def
      TruncateToPageBoundary_def Roundup_def Capacity_def file_Read_def demo_file_def
      write_at_start_def Let_def)

lemma demo_failed_prefetch:
  "Prefetch demo_filled 16 8 = (IOError ''bad sector'', demo_torn)"
  by (simp add: demo_torn_rec)
     (simp add: demo_filled_rec Prefetch_def ReadIntoBuffer_def TruncateToPageBoundary_def
      Roundup_def Capacity_def file_Read_def demo_file_def write_at_start_def Let_def)

lemma demo_failing_read:
  "file_Read demo_file 16 8 = (IOError ''bad sector'', [99, 99])"
  by (simp add: file_Read_def demo_file_def)

text \<open>
  In the state that a successful fetch into the buffer returns, every range that lies
  inside the fetched block (its offset inside the block, its end not beyond the block's
  end) is a full hit of \<^verbatim>\<open>TryReadFromCache\<close>: the hit flag is set, the reported
  length is the requested length and the bytes are the fetched bytes of that range.
  \<^verbatim>\<open>TryReadFromCache\<close> has no access to the file; \<^verbatim>\<open>Read\<close>, on its cache path,
  answers such a range with OK and leaves the object, the log of file reads included,
  as it was. This is a statement about that state only.
\<close>

lemma TryReadFromCache_full_hit:
  assumes fetch: "ReadIntoBuffer st off len = (OK, st')"
    and fetched: "fetched = snd (file_Read (raf_file st) off (min len (Capacity (buffer st))))"
    and lo: "unat off \<le> unat offset"
    and inside: "unat offset < unat off + length fetched"
    and hi: "unat offset + unat n \<le> unat off + length fetched"
    and nowrap: "unat off + length fetched < 2 ^ 64"
  shows "TryReadFromCache st' offset n =
           (True, n, take (unat n) (drop (unat offset - unat off) fetched)) \<and>
         (n + alignment st' < readahead_size st' \<longrightarrow>
            Read st' offset n = (OK, take (unat n) (drop (unat offset - unat off) fetched), st'))"
proof -
  have ok: "fst (file_Read (raf_file st) off (min len (Capacity (buffer st)))) = OK"
    using fetch by (simp add: ReadIntoBuffer_unfold Let_def split: if_splits)
  have bo: "buffer_offset st' = off"
    and cs: "CurrentSize (buffer st') = word_of_nat (length fetched)"
    and mem: "BufferStart (buffer st') = fetched @ drop (length fetched) (BufferStart (buffer st))"
    using fetch ok fetched
    by (auto simp add: ReadIntoBuffer_unfold Let_def CurrentSize_def BufferStart_def Size_def
        write_at_start_def)
  have ucs: "unat (CurrentSize (buffer st')) = length fetched"
    unfolding cs fetched by (rule unat_length_file_Read)
  have avail: "unat (CurrentSize (buffer st') - (offset - buffer_offset st')) =
                 length fetched - (unat offset - unat off)"
    using unat_avail [of "buffer_offset st'" offset "CurrentSize (buffer st')"] lo inside
    by (simp add: bo ucs)
  have "n \<le> CurrentSize (buffer st') - (offset - buffer_offset st')"
    using avail hi lo by (simp add: word_le_nat_alt)
  then have m: "min (CurrentSize (buffer st') - (offset - buffer_offset st')) n = n"
    by (simp add: min_def)
  have "TryReadFromCache st' offset n =
          (True, n, take (unat n) (drop (unat offset - unat (buffer_offset st')) (BufferStart (buffer st'))))"
    using TryReadFromCache_hit [of st' offset n] lo inside nowrap
    unfolding m by (simp add: bo ucs)
  then have hit: "TryReadFromCache st' offset n =
               (True, n, take (unat n) (drop (unat offset - unat off) fetched))"
    using hi lo by (simp add: bo mem)
  show ?thesis
    using hit by (auto simp add: Read_def)
qed

lemma TryReadFromCache_full_hit_demo:
  "ReadIntoBuffer demo_raf 4 8 = (OK, demo_filled) \<and>
   TryReadFromCache demo_filled 6 2 = (True, 2, [16, 17]) \<and>
   (2::u64) + alignment demo_filled < readahead_size demo_filled \<and>
   Read demo_filled 6 2 = (OK, [16, 17], demo_filled)"
proof -
  have fetched: "[14, 15, 16, 17, 18, 19, 20, 21] =
      snd (file_Read (raf_file demo_raf) 4 (min 8 (Capacity (buffer demo_raf))))"
    by (simp add: demo_raf_eq Capacity_def file_Read_def demo_file_def demo_bytes_def)
  have path: "(2::u64) + alignment demo_filled < readahead_size demo_filled"
    by (simp add: demo_filled_rec)
  from TryReadFromCache_full_hit [OF demo_fetch fetched, of 6 2] path demo_fetch
  show ?thesis by simp
qed

section \<open>The wrapper: the claims\<close>

text \<open>
  C1, at a failing input. The wrapper fetches \<open>[4, 12)\<close> with success: the block has
  offset 4 and size 8, and the fetched bytes of \<open>[4, 8)\<close> are 14, 15, 16, 17, which a
  lookup of that range returns. A prefetch at offset 16 follows, whose read of the file
  fails after the file has written two bytes into the memory it was given, which is the
  start of the buffer. \<^verbatim>\<open>ReadIntoBuffer\<close> updates the cached offset and the size
  only if the read is OK, so the block still has offset 4 and size 8, and the range
  \<open>[4, 8)\<close> still lies inside it. The lookup of that range is a full hit with no
  access to the file, but the bytes it copies are 99, 99, 16, 17, not the bytes
  fetched for that range; \<^verbatim>\<open>Read\<close> hands them to its caller with status OK.
\<close>

theorem TryReadFromCache_stale_after_failed_fetch:
  "ReadIntoBuffer demo_raf 4 8 = (OK, demo_filled) \<and>
   snd (file_Read (raf_file demo_raf) 4 8) = [14, 15, 16, 17, 18, 19, 20, 21] \<and>
   TryReadFromCache demo_filled 4 4 = (True, 4, [14, 15, 16, 17]) \<and>
   Prefetch demo_filled 16 8 = (IOError ''bad sector'', demo_torn) \<and>
   buffer_offset demo_torn = 4 \<and>
   CurrentSize (buffer demo_torn) = 8 \<and>
   TryReadFromCache demo_torn 4 4 = (True, 4, [99, 99, 16, 17]) \<and>
   Read demo_torn 4 2 = (OK, [99, 99], demo_torn)"
proof -
  have a: "snd (file_Read (raf_file demo_raf) 4 8) = [14, 15, 16, 17, 18, 19, 20, 21]"
    by (simp add: demo_raf_eq file_Read_def demo_file_def demo_bytes_def)
  have b: "TryReadFromCache demo_filled 4 4 = (True, 4, [14, 15, 16, 17])"
    by (simp add: demo_filled_rec TryReadFromCache_def CurrentSize_def BufferStart_def)
  have c: "buffer_offset demo_torn = 4 \<and> CurrentSize (buffer demo_torn) = 8"
    by (simp add: demo_torn_rec CurrentSize_def)
  have d: "TryReadFromCache demo_torn 4 4 = (True, 4, [99, 99, 16, 17])"
    by (simp add: demo_torn_rec TryReadFromCache_def CurrentSize_def BufferStart_def)
  have e: "Read demo_torn 4 2 = (OK, [99, 99], demo_torn)"
    by (simp add: demo_torn_rec Read_def TryReadFromCache_def CurrentSize_def BufferStart_def)
  show ?thesis
    using demo_fetch a b demo_failed_prefetch c d e by simp
qed

text \<open>
  C5. A prefetch of a range that the buffer already covers, by the coverage check of the
  cache lookup (\<^verbatim>\<open>TryReadFromCache\<close> hits and reports the whole length), is a no-op:
  it returns OK and the object, the log of file reads included, is unchanged. The
  object is any that satisfies the invariant \<open>raf_inv\<close>, which the constructor
  establishes and \<^verbatim>\<open>Read\<close>, \<^verbatim>\<open>Prefetch\<close> and \<^verbatim>\<open>InvalidateCache\<close> keep.
  The code finds the case by comparing the truncated offset with the cached offset.
\<close>

theorem Prefetch_covered_is_noop:
  assumes inv: "raf_inv st"
    and covered: "TryReadFromCache st offset n = (True, n, bytes)"
  shows "Prefetch st offset n = (OK, st)"
proof (cases "n < readahead_size st")
  case True
  then show ?thesis by (simp add: Prefetch_def)
next
  case False
  let ?bo = "buffer_offset st" and ?cs = "CurrentSize (buffer st)"
  have nothit: "\<not> (offset < ?bo \<or> offset \<ge> ?bo + ?cs)"
    using covered by (auto simp add: TryReadFromCache_def split: if_splits)
  then have b: "unat ?bo \<le> unat offset" "unat offset < unat ?bo + unat ?cs"
    using hit_bounds [of offset ?bo ?cs] by simp_all
  have "min (?cs - (offset - ?bo)) n = n"
    using covered nothit by (simp add: TryReadFromCache_def Let_def)
  then have "n \<le> ?cs - (offset - ?bo)"
    by (simp add: min_def split: if_splits)
  then have n_le: "unat n \<le> unat ?cs - (unat offset - unat ?bo)"
    using unat_avail [of ?bo offset ?cs] b by (simp add: word_le_nat_alt)
  have "?cs \<le> readahead_size st"
    using inv by (auto simp add: raf_inv_def)
  then have "unat ?cs \<le> unat n"
    using False by (simp add: word_le_nat_alt not_less)
  then have "unat offset = unat ?bo"
    using n_le b by linarith
  then have "offset = ?bo"
    by (simp add: word_unat_eq_iff)
  then have "TruncateToPageBoundary (alignment st) offset = ?bo"
    using inv by (simp add: raf_inv_def)
  then show ?thesis
    using False by (simp add: Prefetch_def)
qed

theorem Prefetch_covered_is_noop_witness:
  "raf_inv demo_filled \<and>
   TryReadFromCache demo_filled 4 8 = (True, 8, [14, 15, 16, 17, 18, 19, 20, 21]) \<and>
   Prefetch demo_filled 4 8 = (OK, demo_filled)"
proof -
  have covered: "TryReadFromCache demo_filled 4 8 = (True, 8, [14, 15, 16, 17, 18, 19, 20, 21])"
    by (simp add: demo_filled_rec TryReadFromCache_def CurrentSize_def BufferStart_def)
  from Prefetch_covered_is_noop [OF demo_filled_inv covered] demo_filled_inv covered
  show ?thesis by simp
qed

text \<open>
  C6, as the claim states it, fails: after a prefetch whose read fails, the buffer of
  the wrapper still has the size it had before, here 8.
\<close>

theorem Prefetch_failure_size_counterexample:
  "fst (Prefetch demo_filled 16 8) = IOError ''bad sector'' \<and>
   CurrentSize (buffer (snd (Prefetch demo_filled 16 8))) = 8 \<and>
   CurrentSize (buffer (snd (Prefetch demo_filled 16 8))) \<noteq> 0"
  by (simp add: demo_failed_prefetch demo_torn_rec CurrentSize_def)

text \<open>
  C6, amended. A prefetch that issues its read of the external file (the length is not
  below the read-ahead size and the truncated offset is not the cached offset), and
  whose read fails, returns the status of that read, an error, and leaves the buffer's
  size and the cached offset as they were before the call; the one read, of the aligned
  range cut to the capacity of the buffer, is the only access to the file.
\<close>

theorem Prefetch_failure_keeps_buffer:
  assumes long: "\<not> n < readahead_size st"
    and moved: "TruncateToPageBoundary (alignment st) offset \<noteq> buffer_offset st"
    and po: "po = TruncateToPageBoundary (alignment st) offset"
    and len: "len = min (Roundup (offset + n) (alignment st) - po) (Capacity (buffer st))"
    and failed: "fst (file_Read (raf_file st) po len) \<noteq> OK"
  shows "fst (Prefetch st offset n) = fst (file_Read (raf_file st) po len) \<and>
         fst (Prefetch st offset n) \<noteq> OK \<and>
         CurrentSize (buffer (snd (Prefetch st offset n))) = CurrentSize (buffer st) \<and>
         buffer_offset (snd (Prefetch st offset n)) = buffer_offset st \<and>
         io_calls (snd (Prefetch st offset n)) = io_calls st @ [(po, len)]"
  using assms
  by (auto simp add: Prefetch_def ReadIntoBuffer_unfold Let_def CurrentSize_def write_at_start_def
      min_def split: if_splits)

theorem Prefetch_failure_keeps_buffer_witness:
  "\<not> (8::u64) < readahead_size demo_filled \<and>
   TruncateToPageBoundary (alignment demo_filled) 16 \<noteq> buffer_offset demo_filled \<and>
   fst (file_Read (raf_file demo_filled) 16 8) \<noteq> OK \<and>
   fst (Prefetch demo_filled 16 8) = IOError ''bad sector'' \<and>
   CurrentSize (buffer (snd (Prefetch demo_filled 16 8))) = CurrentSize (buffer demo_filled) \<and>
   buffer_offset (snd (Prefetch demo_filled 16 8)) = buffer_offset demo_filled \<and>
   io_calls (snd (Prefetch demo_filled 16 8)) = io_calls demo_filled @ [(16, 8)]"
proof -
  have long: "\<not> (8::u64) < readahead_size demo_filled"
    by (simp add: demo_filled_rec)
  have moved: "TruncateToPageBoundary (alignment demo_filled) 16 \<noteq> buffer_offset demo_filled"
    by (simp add: demo_filled_rec TruncateToPageBoundary_def)
  have po: "(16::u64) = TruncateToPageBoundary (alignment demo_filled) 16"
    by (simp add: demo_filled_rec TruncateToPageBoundary_def)
  have len: "(8::u64) = min (Roundup (16 + 8) (alignment demo_filled) - 16) (Capacity (buffer demo_filled))"
    by (simp add: demo_filled_rec Roundup_def Capacity_def)
  have f: "file_Read (raf_file demo_filled) 16 8 = (IOError ''bad sector'', [99, 99])"
    by (simp add: demo_filled_rec demo_failing_read)
  have failed: "fst (file_Read (raf_file demo_filled) 16 8) \<noteq> OK"
    by (simp add: f)
  from Prefetch_failure_keeps_buffer [OF long moved po len failed] long moved failed f
  show ?thesis by simp
qed

text \<open>
  The converse: a prefetch returns a status other than OK only if it issued its read and
  that read failed.
\<close>

lemma Prefetch_not_OK_only_by_read:
  assumes "fst (Prefetch st offset n) \<noteq> OK"
  shows "\<not> n < readahead_size st \<and>
         TruncateToPageBoundary (alignment st) offset \<noteq> buffer_offset st \<and>
         fst (Prefetch st offset n) =
           fst (file_Read (raf_file st) (TruncateToPageBoundary (alignment st) offset)
                 (min (Roundup (offset + n) (alignment st) - TruncateToPageBoundary (alignment st) offset)
                      (Capacity (buffer st))))"
  using assms
  by (auto simp add: Prefetch_def ReadIntoBuffer_unfold Let_def min_def split: if_splits)




text \<open>
  C9. A read whose length plus the alignment (as the code adds them, in \<^verbatim>\<open>size_t\<close>)
  is at least the read-ahead size is forwarded to the file: status and result are the
  file's, one read of exactly that range is logged, and the buffer and its cached offset
  are unchanged.
\<close>

theorem Read_large_forwards:
  assumes "n + alignment st \<ge> readahead_size st"
  shows "Read st offset n =
           (fst (file_Read (raf_file st) offset n), snd (file_Read (raf_file st) offset n),
            st\<lparr>io_calls := io_calls st @ [(offset, n)]\<rparr>) \<and>
         buffer (snd (snd (Read st offset n))) = buffer st \<and>
         buffer_offset (snd (snd (Read st offset n))) = buffer_offset st"
  using assms by (simp add: Read_def split: prod.splits)

theorem Read_large_forwards_witness:
  "(8::u64) + alignment demo_filled \<ge> readahead_size demo_filled \<and>
   Read demo_filled 0 8 =
     (OK, [10, 11, 12, 13, 14, 15, 16, 17], demo_filled\<lparr>io_calls := [(4, 8), (0, 8)]\<rparr>)"
proof -
  have h: "(8::u64) + alignment demo_filled \<ge> readahead_size demo_filled"
    by (simp add: demo_filled_rec)
  have f: "file_Read (raf_file demo_filled) 0 8 = (OK, [10, 11, 12, 13, 14, 15, 16, 17])"
    by (simp add: demo_filled_rec file_Read_def demo_file_def demo_bytes_def)
  have c: "io_calls demo_filled = [(4, 8)]" by (simp add: demo_filled_rec)
  from Read_large_forwards [OF h, of 0] h f c show ?thesis by simp
qed

text \<open>
  C10. A prefetch request whose length is strictly smaller than the read-ahead size
  returns OK and leaves the whole object as it was: no read of the file is issued and
  the buffer is not touched, whatever the buffer holds.
\<close>

theorem Prefetch_short_is_noop:
  "n < readahead_size st \<Longrightarrow> Prefetch st offset n = (OK, st)"
  by (simp add: Prefetch_def)

theorem Prefetch_short_is_noop_witness:
  "(4::u64) < readahead_size demo_filled \<and> Prefetch demo_filled 0 4 = (OK, demo_filled)"
proof -
  have h: "(4::u64) < readahead_size demo_filled" by (simp add: demo_filled_rec)
  from Prefetch_short_is_noop [OF h, of 0] h show ?thesis by simp
qed

section \<open>Lemmas on the prefetch buffer\<close>

lemma New_fields:
  "bufs (NewFilePrefetchBuffer p) = [] \<and>
   fpb_num_buffers (NewFilePrefetchBuffer p) = num_buffers p \<and>
   fpb_readahead_size (NewFilePrefetchBuffer p) = initial_readahead_size p \<and>
   initial_auto_readahead_size (NewFilePrefetchBuffer p) = initial_readahead_size p \<and>
   fpb_max_readahead_size (NewFilePrefetchBuffer p) = max_readahead_size p"
  by (simp add: NewFilePrefetchBuffer_def)

lemma UpdateReadPattern_params:
  "fpb_max_readahead_size (UpdateReadPattern fpb offset len d) = fpb_max_readahead_size fpb \<and>
   initial_auto_readahead_size (UpdateReadPattern fpb offset len d) = initial_auto_readahead_size fpb \<and>
   fpb_num_buffers (UpdateReadPattern fpb offset len d) = fpb_num_buffers fpb \<and>
   bufs (UpdateReadPattern fpb offset len d) = bufs fpb"
  by (simp add: UpdateReadPattern_def DecreaseReadAheadIfEligible_def Let_def)

lemma UpdateReadPattern_cap:
  assumes "initial_auto_readahead_size fpb \<le> fpb_max_readahead_size fpb"
    and "fpb_readahead_size fpb \<le> fpb_max_readahead_size fpb"
  shows "fpb_readahead_size (UpdateReadPattern fpb offset len d) \<le> fpb_max_readahead_size fpb"
proof -
  have "fpb_readahead_size fpb - DEFAULT_DECREMENT \<le> fpb_max_readahead_size fpb"
    using assms(2) by linarith
  then show ?thesis
    using assms by (simp add: UpdateReadPattern_def DecreaseReadAheadIfEligible_def Let_def)
qed

lemma OnCacheMiss_params:
  "fpb_max_readahead_size (OnCacheMiss fpb offset len c) = fpb_max_readahead_size fpb \<and>
   initial_auto_readahead_size (OnCacheMiss fpb offset len c) = initial_auto_readahead_size fpb \<and>
   fpb_num_buffers (OnCacheMiss fpb offset len c) = fpb_num_buffers fpb \<and>
   bufs (OnCacheMiss fpb offset len c) = bufs fpb"
  by (simp add: OnCacheMiss_def UpdateReadPattern_params Let_def)

lemma OnCacheMiss_cap:
  assumes "initial_auto_readahead_size fpb \<le> fpb_max_readahead_size fpb"
    and "fpb_readahead_size fpb \<le> fpb_max_readahead_size fpb"
  shows "fpb_readahead_size (OnCacheMiss fpb offset len c) \<le> fpb_max_readahead_size fpb"
proof -
  have "fpb_readahead_size (UpdateReadPattern g offset len d) \<le> fpb_max_readahead_size fpb"
    if "initial_auto_readahead_size g = initial_auto_readahead_size fpb"
      and "fpb_max_readahead_size g = fpb_max_readahead_size fpb"
      and "fpb_readahead_size g \<le> fpb_max_readahead_size fpb" for g d
    using UpdateReadPattern_cap [of g offset len d] that assms by simp
  then show ?thesis
    using assms by (simp add: OnCacheMiss_def Let_def)
qed

lemma place_last_fields:
  "fpb_max_readahead_size (place_last off len a fpb) = fpb_max_readahead_size fpb \<and>
   initial_auto_readahead_size (place_last off len a fpb) = initial_auto_readahead_size fpb \<and>
   fpb_readahead_size (place_last off len a fpb) = fpb_readahead_size fpb \<and>
   fpb_num_buffers (place_last off len a fpb) = fpb_num_buffers fpb \<and>
   length (bufs (place_last off len a fpb)) = length (bufs fpb)"
  by (cases "rev (bufs fpb)") (auto simp add: place_last_def dest: arg_cong [where f = length])

lemma AcquireBuffer_fields:
  "fpb_max_readahead_size (AcquireBuffer fpb off len a) = fpb_max_readahead_size fpb \<and>
   initial_auto_readahead_size (AcquireBuffer fpb off len a) = initial_auto_readahead_size fpb \<and>
   fpb_readahead_size (AcquireBuffer fpb off len a) = fpb_readahead_size fpb \<and>
   fpb_num_buffers (AcquireBuffer fpb off len a) = fpb_num_buffers fpb"
  by (simp add: AcquireBuffer_def AllocateBuffer_def NumBuffersAllocated_def place_last_fields
      split: option.splits)

lemma AcquireBuffer_length:
  "length (bufs fpb) \<le> fpb_num_buffers fpb \<Longrightarrow>
     length (bufs (AcquireBuffer fpb off len a)) \<le> fpb_num_buffers fpb"
  by (simp add: AcquireBuffer_def AllocateBuffer_def NumBuffersAllocated_def place_last_fields
      split: option.splits)

lemma fpb_step_params:
  "fpb_max_readahead_size (fpb_step fpb op) = fpb_max_readahead_size fpb \<and>
   initial_auto_readahead_size (fpb_step fpb op) = initial_auto_readahead_size fpb \<and>
   fpb_num_buffers (fpb_step fpb op) = fpb_num_buffers fpb"
  by (cases op)
     (simp_all add: OnCacheMiss_params UpdateReadPattern_params AcquireBuffer_fields
      AllocateBuffer_def FreeFrontBuffer_def FreeLastBuffer_def FreeAllBuffers_def
      FreeEmptyBuffers_def PrefetchAsyncCallback_def AbortAllIOs_def)

lemma fpb_step_cap:
  assumes "initial_auto_readahead_size fpb \<le> fpb_max_readahead_size fpb"
    and "fpb_readahead_size fpb \<le> fpb_max_readahead_size fpb"
  shows "fpb_readahead_size (fpb_step fpb op) \<le> fpb_max_readahead_size fpb"
  using assms
  by (cases op)
     (simp_all add: OnCacheMiss_cap UpdateReadPattern_cap AcquireBuffer_fields
      AllocateBuffer_def FreeFrontBuffer_def FreeLastBuffer_def FreeAllBuffers_def
      FreeEmptyBuffers_def PrefetchAsyncCallback_def AbortAllIOs_def)

lemma fpb_run_cap:
  assumes "initial_auto_readahead_size fpb \<le> fpb_max_readahead_size fpb"
    and "fpb_readahead_size fpb \<le> fpb_max_readahead_size fpb"
  shows "fpb_readahead_size (fpb_run fpb ops) \<le> fpb_max_readahead_size fpb"
  using assms
proof (induction ops arbitrary: fpb)
  case Nil
  then show ?case by simp
next
  case (Cons op ops)
  have "fpb_readahead_size (fpb_run (fpb_step fpb op) ops) \<le> fpb_max_readahead_size (fpb_step fpb op)"
    using Cons.prems fpb_step_cap [of fpb op] by (intro Cons.IH) (simp_all add: fpb_step_params)
  then show ?case by (simp add: fpb_step_params)
qed

lemma fpb_step_length:
  "length (bufs fpb) \<le> fpb_num_buffers fpb \<Longrightarrow>
     length (bufs (fpb_step fpb op)) \<le> fpb_num_buffers fpb"
proof (cases op)
  case FreeEmpty
  assume "length (bufs fpb) \<le> fpb_num_buffers fpb"
  moreover have "length (filter (\<lambda>b. async_read_in_progress b \<or> DoesBufferContainData b) (bufs fpb))
      \<le> length (bufs fpb)"
    by (rule length_filter_le)
  ultimately have "length (filter (\<lambda>b. async_read_in_progress b \<or> DoesBufferContainData b) (bufs fpb))
      \<le> fpb_num_buffers fpb"
    by linarith
  then show ?thesis using FreeEmpty by (simp add: FreeEmptyBuffers_def)
qed (auto simp add: OnCacheMiss_params UpdateReadPattern_params AcquireBuffer_length
      AllocateBuffer_def NumBuffersAllocated_def FreeFrontBuffer_def FreeLastBuffer_def
      FreeAllBuffers_def PrefetchAsyncCallback_def AbortAllIOs_def split: list.splits)

lemma fpb_run_length:
  "length (bufs fpb) \<le> fpb_num_buffers fpb \<Longrightarrow>
     length (bufs (fpb_run fpb ops)) \<le> fpb_num_buffers fpb"
proof (induction ops arbitrary: fpb)
  case Nil
  then show ?case by simp
next
  case (Cons op ops)
  have "length (bufs (fpb_run (fpb_step fpb op) ops)) \<le> fpb_num_buffers (fpb_step fpb op)"
    using Cons.prems fpb_step_length [of fpb op] by (intro Cons.IH) (simp add: fpb_step_params)
  then show ?case by (simp add: fpb_step_params)
qed

text \<open>
  The eviction victim: there is none exactly if every block has an unfinished fetch
  overlapping the requested range; otherwise it is a block of the set without such a
  fetch, and no block without such a fetch has a lower offset.
\<close>

lemma eviction_victim_None:
  "eviction_victim fpb off len = None \<longleftrightarrow> (\<forall>b \<in> set (bufs fpb). fetch_overlaps b off len)"
proof -
  have "eviction_victim fpb off len = None \<longleftrightarrow>
          filter (\<lambda>b. \<not> fetch_overlaps b off len) (bufs fpb) = []"
    by (simp add: eviction_victim_def split: list.splits)
  then show ?thesis by (simp add: filter_empty_conv)
qed

lemma eviction_victim_Some:
  assumes "eviction_victim fpb off len = Some v"
  shows "v \<in> set (bufs fpb) \<and> \<not> fetch_overlaps v off len \<and>
         (\<forall>b \<in> set (bufs fpb). \<not> fetch_overlaps b off len \<longrightarrow> bi_offset v \<le> bi_offset b)"
proof -
  let ?c = "filter (\<lambda>b. \<not> fetch_overlaps b off len) (bufs fpb)"
  have ne: "?c \<noteq> []" and v: "v = arg_min_list bi_offset ?c"
    using assms by (auto simp add: eviction_victim_def split: list.splits)
  have mem: "v \<in> set ?c"
    unfolding v using ne by (rule arg_min_list_in)
  have "bi_offset v = Min (bi_offset ` set ?c)"
    unfolding v using ne by (rule f_arg_min_list_f)
  then have "\<forall>b \<in> set ?c. bi_offset v \<le> bi_offset b"
    by simp
  then show ?thesis using mem by auto
qed

lemma AcquireBuffer_at_capacity:
  assumes full: "NumBuffersAllocated fpb = fpb_num_buffers fpb"
    and pos: "0 < fpb_num_buffers fpb"
    and victim: "eviction_victim fpb off len = Some v"
  shows "bufs (AcquireBuffer fpb off len a) =
           remove1 v (bufs fpb) @ [issue_fetch off len a (empty_block 0)]"
proof -
  have "v \<in> set (bufs fpb)"
    using eviction_victim_Some [OF victim] by simp
  then have "length (remove1 v (bufs fpb)) = length (bufs fpb) - 1"
    by (simp add: length_remove1)
  then have "length (remove1 v (bufs fpb)) < fpb_num_buffers fpb"
    using full pos by (simp add: NumBuffersAllocated_def)
  then show ?thesis
    using full victim
    by (simp add: AcquireBuffer_def AllocateBuffer_def NumBuffersAllocated_def place_last_def)
qed

lemma AcquireBuffer_blocked:
  assumes "NumBuffersAllocated fpb = fpb_num_buffers fpb"
    and "eviction_victim fpb off len = None"
  shows "AcquireBuffer fpb off len a = fpb"
  using assms by (simp add: AcquireBuffer_def AllocateBuffer_def)

lemma AcquireBuffer_cases:
  "bufs (AcquireBuffer fpb off len a) = bufs fpb @ [issue_fetch off len a (empty_block 0)] \<or>
   (\<exists>v. eviction_victim fpb off len = Some v \<and>
        bufs (AcquireBuffer fpb off len a) =
          remove1 v (bufs fpb) @ [issue_fetch off len a (empty_block 0)]) \<or>
   bufs (AcquireBuffer fpb off len a) = bufs fpb"
  by (simp add: AcquireBuffer_def AllocateBuffer_def NumBuffersAllocated_def place_last_def
      split: option.splits)

text \<open>A block with an unfinished fetch overlapping the requested range is never evicted.\<close>

lemma AcquireBuffer_keeps_overlapping:
  assumes mem: "b \<in> set (bufs fpb)" and ov: "fetch_overlaps b off len"
  shows "b \<in> set (bufs (AcquireBuffer fpb off len a))"
proof -
  have "b \<in> set (remove1 v (bufs fpb))" if "eviction_victim fpb off len = Some v" for v
  proof -
    have "b \<noteq> v" using eviction_victim_Some [OF that] ov by auto
    then show ?thesis using mem by simp
  qed
  then show ?thesis
    using AcquireBuffer_cases [of fpb off len a] mem by auto
qed

subsection \<open>The concrete runs, evaluated\<close>

lemma ReadaheadParams_default_ordered:
  "initial_readahead_size ReadaheadParams_default \<le> max_readahead_size ReadaheadParams_default \<and>
   num_buffers ReadaheadParams_default = 1"
  by (simp add: ReadaheadParams_default_def)


lemma demo_scan2:
  "fpb_run (NewFilePrefetchBuffer demo_params) scan2 =
     \<lparr>bufs = [], fpb_num_buffers = 2, fpb_readahead_size = 4096,
      initial_auto_readahead_size = 4096, fpb_max_readahead_size = 16384,
      fpb_implicit_auto_readahead = True, fpb_num_file_reads = 2,
      fpb_num_file_reads_for_auto_readahead = 2, prev_offset = 100,
      prev_len = 100, explicit_prefetch_submitted = False\<rparr>"
  by (simp add: scan2_def NewFilePrefetchBuffer_def demo_params_def OnCacheMiss_def UpdateReadPattern_def
      IsBlockSequential_def Let_def)

lemma demo_scan3:
  "fpb_run (NewFilePrefetchBuffer demo_params) scan3 =
     \<lparr>bufs = [], fpb_num_buffers = 2, fpb_readahead_size = 8192,
      initial_auto_readahead_size = 4096, fpb_max_readahead_size = 16384,
      fpb_implicit_auto_readahead = True, fpb_num_file_reads = 3,
      fpb_num_file_reads_for_auto_readahead = 2, prev_offset = 200,
      prev_len = 100, explicit_prefetch_submitted = False\<rparr>"
  by (simp add: scan3_def scan2_def NewFilePrefetchBuffer_def demo_params_def OnCacheMiss_def UpdateReadPattern_def
      IsBlockSequential_def Let_def)


lemma demo_need2:
  "fpb_run (NewFilePrefetchBuffer demo_params) need2 =
     (NewFilePrefetchBuffer demo_params)\<lparr>bufs := [empty_block 0, empty_block 4096]\<rparr>"
  by (simp add: need2_def NewFilePrefetchBuffer_def demo_params_def AcquireBuffer_def
      AllocateBuffer_def NumBuffersAllocated_def place_last_def issue_fetch_def empty_block_def)

lemma demo_need2_down:
  "fpb_run (NewFilePrefetchBuffer demo_params) need2_down =
     (NewFilePrefetchBuffer demo_params)\<lparr>bufs := [empty_block 4096, empty_block 0]\<rparr>"
  by (simp add: need2_down_def NewFilePrefetchBuffer_def demo_params_def AcquireBuffer_def
      AllocateBuffer_def NumBuffersAllocated_def place_last_def issue_fetch_def empty_block_def)

lemma demo_need2_async:
  "fpb_run (NewFilePrefetchBuffer demo_params) need2_async =
     (NewFilePrefetchBuffer demo_params)
       \<lparr>bufs := [issue_fetch 0 8192 True (empty_block 0), empty_block 16384]\<rparr>"
  by (simp add: need2_async_def NewFilePrefetchBuffer_def demo_params_def AcquireBuffer_def
      AllocateBuffer_def NumBuffersAllocated_def place_last_def issue_fetch_def empty_block_def)

lemma demo_victim_need2:
  "eviction_victim (fpb_run (NewFilePrefetchBuffer demo_params) need2) 8192 4096 = Some (empty_block 0)"
  by (simp add: demo_need2 eviction_victim_def fetch_overlaps_def empty_block_def)

lemma demo_victim_need2_down:
  "eviction_victim (fpb_run (NewFilePrefetchBuffer demo_params) need2_down) 8192 4096 = Some (empty_block 0)"
  by (simp add: demo_need2_down eviction_victim_def fetch_overlaps_def empty_block_def)

lemma demo_victim_need2_async:
  "eviction_victim (fpb_run (NewFilePrefetchBuffer demo_params) need2_async) 4096 8192 = Some (empty_block 16384)"
  by (simp add: demo_need2_async eviction_victim_def fetch_overlaps_def issue_fetch_def empty_block_def)

section \<open>The prefetch buffer: the claims\<close>

text \<open>
  C2, as the claim states it for every configuration, fails: the parameters put no
  order on the initial and the maximum read-ahead size, and with an initial size above
  the maximum the current size exceeds the maximum before any operation.
\<close>

theorem readahead_exceeds_max_counterexample:
  "fpb_readahead_size (fpb_run (NewFilePrefetchBuffer inverted_params) []) = 8192 \<and>
   max_readahead_size inverted_params = 4096 \<and>
   \<not> fpb_readahead_size (fpb_run (NewFilePrefetchBuffer inverted_params) [])
       \<le> max_readahead_size inverted_params"
  by (simp add: NewFilePrefetchBuffer_def inverted_params_def)

text \<open>
  C2, amended. For every configuration whose initial read-ahead size is at most the
  maximum: after any sequence of operations the current read-ahead size is at most the
  maximum; and in every state in which implicit read-ahead is active (it is enabled, no
  explicit prefetch is pending, the counter has reached the threshold), a sequential miss
  outside compaction sets the current size to twice its value, capped at the maximum.
\<close>

theorem readahead_doubles_within_cap:
  assumes "initial_readahead_size p \<le> max_readahead_size p"
  shows "fpb_readahead_size (fpb_run (NewFilePrefetchBuffer p) ops) \<le> max_readahead_size p \<and>
         (fpb_implicit_auto_readahead fpb \<and> \<not> explicit_prefetch_submitted fpb \<and>
          fpb_num_file_reads_for_auto_readahead fpb \<le> fpb_num_file_reads fpb \<and>
          IsBlockSequential fpb offset \<longrightarrow>
            fpb_readahead_size (OnCacheMiss fpb offset len False) =
              min (fpb_max_readahead_size fpb) (2 * fpb_readahead_size fpb))"
proof -
  have "fpb_readahead_size (fpb_run (NewFilePrefetchBuffer p) ops)
          \<le> fpb_max_readahead_size (NewFilePrefetchBuffer p)"
    using assms by (intro fpb_run_cap) (simp_all add: New_fields)
  then have cap: "fpb_readahead_size (fpb_run (NewFilePrefetchBuffer p) ops) \<le> max_readahead_size p"
    by (simp add: New_fields)
  have grow: "fpb_readahead_size (OnCacheMiss fpb offset len False) =
                min (fpb_max_readahead_size fpb) (2 * fpb_readahead_size fpb)"
    if "fpb_implicit_auto_readahead fpb" "\<not> explicit_prefetch_submitted fpb"
      "fpb_num_file_reads_for_auto_readahead fpb \<le> fpb_num_file_reads fpb"
      "IsBlockSequential fpb offset"
    using that by (simp add: OnCacheMiss_def UpdateReadPattern_def Let_def)
  show ?thesis using cap grow by blast
qed

theorem readahead_doubles_within_cap_witness:
  "initial_readahead_size demo_params \<le> max_readahead_size demo_params \<and>
   fpb_readahead_size (fpb_run (NewFilePrefetchBuffer demo_params) scan3) = 8192 \<and>
   fpb_readahead_size (fpb_run (NewFilePrefetchBuffer demo_params) scan3)
     \<le> max_readahead_size demo_params \<and>
   fpb_readahead_size
     (OnCacheMiss (fpb_run (NewFilePrefetchBuffer demo_params) scan2) 200 100 False) = 8192"
proof -
  let ?two = "fpb_run (NewFilePrefetchBuffer demo_params) scan2"
  have h: "initial_readahead_size demo_params \<le> max_readahead_size demo_params"
    by (simp add: demo_params_def)
  have a: "fpb_implicit_auto_readahead ?two \<and> \<not> explicit_prefetch_submitted ?two \<and>
           fpb_num_file_reads_for_auto_readahead ?two \<le> fpb_num_file_reads ?two \<and>
           IsBlockSequential ?two 200"
    by (simp add: demo_scan2 IsBlockSequential_def)
  have v: "min (fpb_max_readahead_size ?two) (2 * fpb_readahead_size ?two) = 8192"
    by (simp add: demo_scan2)
  have r: "fpb_readahead_size (fpb_run (NewFilePrefetchBuffer demo_params) scan3) = 8192"
    by (simp add: demo_scan3)
  from readahead_doubles_within_cap [OF h, of scan3 ?two 200 100] h a v r
  show ?thesis by simp
qed



text \<open>
  C4, as the claim states it, fails: the set of two blocks is at capacity, the block at
  offset 0 has an unfinished fetch of \<open>[0, 8192)\<close>, and a block is needed for a fetch
  of \<open>[4096, 12288)\<close>, which overlaps it. The block with the lowest offset, 0, is not
  evicted; the block at offset 16384 is.
\<close>

theorem lowest_block_not_evicted_counterexample:
  "NumBuffersAllocated (fpb_run (NewFilePrefetchBuffer demo_params) need2_async) =
     fpb_num_buffers (fpb_run (NewFilePrefetchBuffer demo_params) need2_async) \<and>
   map bi_offset (bufs (fpb_run (NewFilePrefetchBuffer demo_params) need2_async)) = [0, 16384] \<and>
   map async_read_in_progress (bufs (fpb_run (NewFilePrefetchBuffer demo_params) need2_async)) =
     [True, False] \<and>
   map bi_offset
     (bufs (AcquireBuffer (fpb_run (NewFilePrefetchBuffer demo_params) need2_async) 4096 8192 False)) =
     [0, 4096]"
proof -
  let ?st = "fpb_run (NewFilePrefetchBuffer demo_params) need2_async"
  have two: "fpb_num_buffers ?st = 2"
    unfolding demo_need2_async by (simp add: NewFilePrefetchBuffer_def demo_params_def)
  have full: "NumBuffersAllocated ?st = fpb_num_buffers ?st"
    unfolding two by (simp add: demo_need2_async NumBuffersAllocated_def)
  have pos: "0 < fpb_num_buffers ?st"
    unfolding two by simp
  have offs: "map bi_offset (bufs ?st) = [0, 16384] \<and>
              map async_read_in_progress (bufs ?st) = [True, False]"
    by (simp add: demo_need2_async issue_fetch_def empty_block_def)
  have "bufs (AcquireBuffer ?st 4096 8192 False) =
          remove1 (empty_block 16384) (bufs ?st) @ [issue_fetch 4096 8192 False (empty_block 0)]"
    using full pos demo_victim_need2_async by (rule AcquireBuffer_at_capacity)
  then have "map bi_offset (bufs (AcquireBuffer ?st 4096 8192 False)) = [0, 4096]"
    by (simp add: demo_need2_async issue_fetch_def empty_block_def)
  then show ?thesis using full offs by simp
qed

text \<open>
  C4, amended. After any sequence of operations on a prefetch buffer the number of
  blocks in the block set is at most the configured number of buffers. A block with an
  unfinished fetch overlapping the requested range is never evicted. When a block is
  needed and the set is at capacity: if every block has such a fetch, nothing is evicted
  and no block is added; otherwise the block evicted is one without such a fetch, no
  block without such a fetch has a lower offset (so it is the block with the lowest
  offset of the whole set when no block has such a fetch), the new block is added at the
  back, and the count stays at the capacity.
\<close>

theorem block_count_bounded:
  "NumBuffersAllocated (fpb_run (NewFilePrefetchBuffer p) ops) \<le> num_buffers p \<and>
   (\<forall>b \<in> set (bufs fpb). fetch_overlaps b off len \<longrightarrow>
      b \<in> set (bufs (AcquireBuffer fpb off len a))) \<and>
   (NumBuffersAllocated fpb = fpb_num_buffers fpb \<and> 0 < fpb_num_buffers fpb \<longrightarrow>
      (eviction_victim fpb off len = None \<longrightarrow>
         (\<forall>b \<in> set (bufs fpb). fetch_overlaps b off len) \<and>
         AcquireBuffer fpb off len a = fpb) \<and>
      (\<forall>v. eviction_victim fpb off len = Some v \<longrightarrow>
         v \<in> set (bufs fpb) \<and> \<not> fetch_overlaps v off len \<and>
         (\<forall>b \<in> set (bufs fpb). \<not> fetch_overlaps b off len \<longrightarrow> bi_offset v \<le> bi_offset b) \<and>
         ((\<forall>b \<in> set (bufs fpb). \<not> fetch_overlaps b off len) \<longrightarrow>
            (\<forall>b \<in> set (bufs fpb). bi_offset v \<le> bi_offset b)) \<and>
         bufs (AcquireBuffer fpb off len a) =
           remove1 v (bufs fpb) @ [issue_fetch off len a (empty_block 0)] \<and>
         NumBuffersAllocated (AcquireBuffer fpb off len a) = fpb_num_buffers fpb))"
proof -
  have "length (bufs (fpb_run (NewFilePrefetchBuffer p) ops))
          \<le> fpb_num_buffers (NewFilePrefetchBuffer p)"
    by (rule fpb_run_length) (simp add: New_fields)
  then have bound: "NumBuffersAllocated (fpb_run (NewFilePrefetchBuffer p) ops) \<le> num_buffers p"
    by (simp add: New_fields NumBuffersAllocated_def)
  have keep: "\<forall>b \<in> set (bufs fpb). fetch_overlaps b off len \<longrightarrow>
                b \<in> set (bufs (AcquireBuffer fpb off len a))"
    using AcquireBuffer_keeps_overlapping by blast
  have blocked: "(\<forall>b \<in> set (bufs fpb). fetch_overlaps b off len) \<and> AcquireBuffer fpb off len a = fpb"
    if "NumBuffersAllocated fpb = fpb_num_buffers fpb" and "eviction_victim fpb off len = None"
    using that AcquireBuffer_blocked [OF that] by (simp add: eviction_victim_None)
  have evict: "v \<in> set (bufs fpb) \<and> \<not> fetch_overlaps v off len \<and>
         (\<forall>b \<in> set (bufs fpb). \<not> fetch_overlaps b off len \<longrightarrow> bi_offset v \<le> bi_offset b) \<and>
         ((\<forall>b \<in> set (bufs fpb). \<not> fetch_overlaps b off len) \<longrightarrow>
            (\<forall>b \<in> set (bufs fpb). bi_offset v \<le> bi_offset b)) \<and>
         bufs (AcquireBuffer fpb off len a) =
           remove1 v (bufs fpb) @ [issue_fetch off len a (empty_block 0)] \<and>
         NumBuffersAllocated (AcquireBuffer fpb off len a) = fpb_num_buffers fpb"
    if full: "NumBuffersAllocated fpb = fpb_num_buffers fpb" and pos: "0 < fpb_num_buffers fpb"
      and victim: "eviction_victim fpb off len = Some v" for v
  proof -
    have v: "v \<in> set (bufs fpb) \<and> \<not> fetch_overlaps v off len \<and>
         (\<forall>b \<in> set (bufs fpb). \<not> fetch_overlaps b off len \<longrightarrow> bi_offset v \<le> bi_offset b)"
      using victim by (rule eviction_victim_Some)
    have e: "bufs (AcquireBuffer fpb off len a) =
               remove1 v (bufs fpb) @ [issue_fetch off len a (empty_block 0)]"
      using full pos victim by (rule AcquireBuffer_at_capacity)
    have "0 < length (bufs fpb)" using v by (auto simp add: length_pos_if_in_set)
    moreover have "length (remove1 v (bufs fpb)) = length (bufs fpb) - 1"
      using v by (simp add: length_remove1)
    ultimately have "length (remove1 v (bufs fpb) @ [issue_fetch off len a (empty_block 0)]) =
                       length (bufs fpb)"
      by simp
    then have n: "NumBuffersAllocated (AcquireBuffer fpb off len a) = fpb_num_buffers fpb"
      using e full by (simp add: NumBuffersAllocated_def)
    show ?thesis using v e n by blast
  qed
  show ?thesis using bound keep blocked evict by blast
qed

theorem block_count_bounded_witness:
  "NumBuffersAllocated (fpb_run (NewFilePrefetchBuffer demo_params) need3) \<le> num_buffers demo_params \<and>
   NumBuffersAllocated (fpb_run (NewFilePrefetchBuffer demo_params) need2_down) =
     fpb_num_buffers (fpb_run (NewFilePrefetchBuffer demo_params) need2_down) \<and>
   0 < fpb_num_buffers (fpb_run (NewFilePrefetchBuffer demo_params) need2_down) \<and>
   map bi_offset (bufs (fpb_run (NewFilePrefetchBuffer demo_params) need2_down)) = [4096, 0] \<and>
   eviction_victim (fpb_run (NewFilePrefetchBuffer demo_params) need2_down) 8192 4096 =
     Some (empty_block 0) \<and>
   map bi_offset
     (bufs (AcquireBuffer (fpb_run (NewFilePrefetchBuffer demo_params) need2_down) 8192 4096 False)) =
     [4096, 8192] \<and>
   NumBuffersAllocated
     (AcquireBuffer (fpb_run (NewFilePrefetchBuffer demo_params) need2_down) 8192 4096 False) = 2 \<and>
   issue_fetch 0 8192 True (empty_block 0) \<in>
     set (bufs (fpb_run (NewFilePrefetchBuffer demo_params) need2_async)) \<and>
   fetch_overlaps (issue_fetch 0 8192 True (empty_block 0)) 4096 8192 \<and>
   issue_fetch 0 8192 True (empty_block 0) \<in>
     set (bufs (AcquireBuffer (fpb_run (NewFilePrefetchBuffer demo_params) need2_async) 4096 8192 False))"
proof -
  let ?st = "fpb_run (NewFilePrefetchBuffer demo_params) need2_down"
  let ?as = "fpb_run (NewFilePrefetchBuffer demo_params) need2_async"
  have mem: "issue_fetch 0 8192 True (empty_block 0) \<in> set (bufs ?as)"
    by (simp add: demo_need2_async)
  have ov: "fetch_overlaps (issue_fetch 0 8192 True (empty_block 0)) 4096 8192"
    by (simp add: fetch_overlaps_def issue_fetch_def empty_block_def)
  have kept: "issue_fetch 0 8192 True (empty_block 0) \<in>
                set (bufs (AcquireBuffer ?as 4096 8192 False))"
    using block_count_bounded [of demo_params "[]" ?as 4096 8192 False] mem ov by blast
  have two: "fpb_num_buffers ?st = 2"
    unfolding demo_need2_down by (simp add: NewFilePrefetchBuffer_def demo_params_def)
  have full: "NumBuffersAllocated ?st = fpb_num_buffers ?st"
    unfolding two by (simp add: demo_need2_down NumBuffersAllocated_def)
  have pos: "0 < fpb_num_buffers ?st"
    unfolding two by simp
  have offs: "map bi_offset (bufs ?st) = [4096, 0]"
    by (simp add: demo_need2_down empty_block_def)
  have rest: "map bi_offset (remove1 (empty_block 0) (bufs ?st) @
                 [issue_fetch 8192 4096 False (empty_block 0)]) = [4096, 8192]"
    by (simp add: demo_need2_down issue_fetch_def empty_block_def)
  have evicted: "NumBuffersAllocated (fpb_run (NewFilePrefetchBuffer demo_params) need3)
                   \<le> num_buffers demo_params \<and>
      map bi_offset (bufs (AcquireBuffer ?st 8192 4096 False)) = [4096, 8192] \<and>
      NumBuffersAllocated (AcquireBuffer ?st 8192 4096 False) = 2"
    using block_count_bounded [of demo_params need3 ?st 8192 4096 False]
      full pos two rest demo_victim_need2_down
    by simp
  show ?thesis
    using evicted full pos offs demo_victim_need2_down mem ov kept by simp
qed

text \<open>
  C8, as the claim states it, fails: on an empty block set \<^verbatim>\<open>GetPrefetchOffset\<close>
  does not fail with \<open>PreconditionViolation\<close>; it reads the front of an empty deque.
\<close>

theorem GetPrefetchOffset_empty_counterexample:
  "bufs (demo_fpb []) = [] \<and>
   GetPrefetchOffset (demo_fpb []) = Inl UndefinedBehaviour \<and>
   GetPrefetchOffset (demo_fpb []) \<noteq> Inl PreconditionViolation"
  by (simp add: GetPrefetchOffset_def demo_fpb_def)

text \<open>
  C8, amended. \<^verbatim>\<open>GetPrefetchOffset\<close> performs no check: on a block set that is not
  empty it returns the offset of the front block, and on an empty block set its
  behaviour is undefined.
\<close>

theorem GetPrefetchOffset_unchecked:
  "GetPrefetchOffset fpb =
     (if bufs fpb = [] then Inl UndefinedBehaviour else Inr (bi_offset (hd (bufs fpb))))"
  by (simp add: GetPrefetchOffset_def split: list.splits)

theorem GetPrefetchOffset_unchecked_witness:
  "bufs (demo_fpb [empty_block 4096, empty_block 8192]) \<noteq> [] \<and>
   GetPrefetchOffset (demo_fpb [empty_block 4096, empty_block 8192]) = Inr 4096"
proof -
  have a: "bufs (demo_fpb [empty_block 4096, empty_block 8192]) =
             [empty_block 4096, empty_block 8192]"
    by (simp add: demo_fpb_def)
  from GetPrefetchOffset_unchecked [of "demo_fpb [empty_block 4096, empty_block 8192]"] a
  show ?thesis by (simp add: empty_block_def)
qed

end
